theory Spec2Isabelle
  imports Main "HOL-Library.Word"
begin

section \<open>GLib and NMSetting interfaces used by nm-connection.c\<close>

text \<open>
  A \<open>GType\<close> identifies a class at run time. The model knows the two fundamental
  markers the source tests for and the setting classes whose headers nm-connection.c
  includes; every other constructor is a subclass of \<open>NM_TYPE_SETTING\<close>.
\<close>

datatype gtype =
    G_TYPE_INVALID
  | G_TYPE_NONE
  | NM_TYPE_SETTING_802_1X
  | NM_TYPE_SETTING_BLUETOOTH
  | NM_TYPE_SETTING_CONNECTION
  | NM_TYPE_SETTING_INFINIBAND
  | NM_TYPE_SETTING_IP4_CONFIG
  | NM_TYPE_SETTING_IP6_CONFIG
  | NM_TYPE_SETTING_PPP
  | NM_TYPE_SETTING_PPPOE
  | NM_TYPE_SETTING_WIMAX
  | NM_TYPE_SETTING_WIRED
  | NM_TYPE_SETTING_ADSL
  | NM_TYPE_SETTING_WIRELESS
  | NM_TYPE_SETTING_WIRELESS_SECURITY
  | NM_TYPE_SETTING_SERIAL
  | NM_TYPE_SETTING_VPN
  | NM_TYPE_SETTING_OLPC_MESH
  | NM_TYPE_SETTING_BOND
  | NM_TYPE_SETTING_BRIDGE
  | NM_TYPE_SETTING_BRIDGE_PORT
  | NM_TYPE_SETTING_VLAN
  | NM_TYPE_SETTING_GSM
  | NM_TYPE_SETTING_CDMA

text \<open>\<open>g_type_is_a (t, NM_TYPE_SETTING)\<close>.\<close>

definition g_type_is_a_NM_TYPE_SETTING :: "gtype \<Rightarrow> bool" where
  "g_type_is_a_NM_TYPE_SETTING t = (t \<noteq> G_TYPE_INVALID \<and> t \<noteq> G_TYPE_NONE)"

text \<open>
  A \<open>GHashTable\<close> is an association list with one pair per key; the order of the list
  is the order in which \<open>g_hash_table_iter_next\<close> visits the pairs. Inserting under a
  key that is present replaces the value where it stands, inserting under a new key
  adds a pair.
\<close>

definition g_hash_table_lookup :: "('k \<times> 'v) list \<Rightarrow> 'k \<Rightarrow> 'v option" where
  "g_hash_table_lookup table key = map_of table key"

fun g_hash_table_insert :: "('k \<times> 'v) list \<Rightarrow> 'k \<Rightarrow> 'v \<Rightarrow> ('k \<times> 'v) list" where
  "g_hash_table_insert [] key v = [(key, v)]"
| "g_hash_table_insert ((k, old) # rest) key v =
     (if k = key then (k, v) # rest else (k, old) # g_hash_table_insert rest key v)"

definition g_hash_table_remove :: "('k \<times> 'v) list \<Rightarrow> 'k \<Rightarrow> ('k \<times> 'v) list" where
  "g_hash_table_remove table key = filter (\<lambda>(k, v). k \<noteq> key) table"

definition g_hash_table_size :: "('k \<times> 'v) list \<Rightarrow> nat" where
  "g_hash_table_size table = length table"

section \<open>The registry of setting kinds\<close>

text \<open>
  \<open>SettingInfo\<close> and the static table \<open>registered_settings\<close> (setting name to
  \<open>SettingInfo\<close>). The table is passed in and returned.
\<close>

record SettingInfo =
  info_type :: gtype
  info_priority :: "32 word"
  info_error_quark :: "32 word"

type_synonym registry = "(string \<times> SettingInfo) list"

definition NM_SETTING_CONNECTION_SETTING_NAME :: string where
  "NM_SETTING_CONNECTION_SETTING_NAME = ''connection''"

definition G_MAXUINT32 :: "32 word" where
  "G_MAXUINT32 = 0xFFFFFFFF"

text \<open>
  How a call of a \<open>void\<close> function ends: \<open>g_assert_cmpstr\<close> aborts the process;
  \<open>g_return_if_fail\<close> logs a critical warning and returns to the caller; otherwise
  the function returns normally. The table is the one the call leaves behind.
\<close>

datatype 'a outcome = Aborted | Returned_Critical 'a | Returned 'a

definition nm_register_setting ::
  "string option \<Rightarrow> gtype \<Rightarrow> 32 word \<Rightarrow> 32 word \<Rightarrow> registry \<Rightarrow> registry outcome" where
  "nm_register_setting name type priority error_quark registered_settings =
     (case name of
        None \<Rightarrow> Returned_Critical registered_settings
      | Some n \<Rightarrow>
          if type = G_TYPE_INVALID then Returned_Critical registered_settings
          else if type = G_TYPE_NONE then Returned_Critical registered_settings
          else if error_quark = 0 then Returned_Critical registered_settings
          else if \<not> priority \<le> 4 then Returned_Critical registered_settings
          else if g_hash_table_lookup registered_settings n \<noteq> None
            then Returned registered_settings
          else if priority = 0 \<and> n \<noteq> NM_SETTING_CONNECTION_SETTING_NAME then Aborted
          else Returned (g_hash_table_insert registered_settings n
                 \<lparr>info_type = type, info_priority = priority,
                  info_error_quark = error_quark\<rparr>))"

text \<open>
  The loop of \<open>_get_setting_priority\<close> over the table, looking for the run-time type of
  the setting.
\<close>

fun get_setting_priority_scan :: "registry \<Rightarrow> gtype \<Rightarrow> 32 word" where
  "get_setting_priority_scan [] t = G_MAXUINT32"
| "get_setting_priority_scan ((name, info) # rest) t =
     (if t = info_type info then info_priority info else get_setting_priority_scan rest t)"

definition nm_connection_lookup_setting_type :: "registry \<Rightarrow> string \<Rightarrow> gtype" where
  "nm_connection_lookup_setting_type registered_settings name =
     (case g_hash_table_lookup registered_settings name of
        Some info \<Rightarrow> info_type info
      | None \<Rightarrow> G_TYPE_INVALID)"

fun nm_connection_lookup_setting_type_by_quark :: "registry \<Rightarrow> 32 word \<Rightarrow> gtype" where
  "nm_connection_lookup_setting_type_by_quark [] error_quark = G_TYPE_INVALID"
| "nm_connection_lookup_setting_type_by_quark ((name, info) # rest) error_quark =
     (if info_error_quark info = error_quark then info_type info
      else nm_connection_lookup_setting_type_by_quark rest error_quark)"

text \<open>
  The registrations made at start-up, one call after the other, from an empty table.
  \<open>None\<close>: one of the calls aborted.
\<close>

type_synonym registration = "string \<times> gtype \<times> 32 word \<times> 32 word"

fun register_all :: "registration list \<Rightarrow> registry \<Rightarrow> registry option" where
  "register_all [] reg = Some reg"
| "register_all ((name, type, priority, error_quark) # calls) reg =
     (case nm_register_setting (Some name) type priority error_quark reg of
        Aborted \<Rightarrow> None
      | Returned_Critical reg' \<Rightarrow> register_all calls reg'
      | Returned reg' \<Rightarrow> register_all calls reg')"

text \<open>
  Modelled from the spec: the registration calls themselves are made by the setting
  classes (nm-setting-connection.c and the others), outside nm-connection.c. The spec
  reserves priority 0 for the "connection" kind, registers each kind under its own
  name, and has one registration per kind: some call registers the connection kind
  under the reserved name with priority 0 and an error domain, and every call that
  uses the reserved name or the connection type is such a registration.
\<close>

definition connection_kind_registrations :: "registration list \<Rightarrow> bool" where
  "connection_kind_registrations calls =
     ((\<exists>(name, type, priority, error_quark) \<in> set calls.
          name = NM_SETTING_CONNECTION_SETTING_NAME \<and> type = NM_TYPE_SETTING_CONNECTION
          \<and> priority = 0 \<and> error_quark \<noteq> 0)
      \<and> (\<forall>(name, type, priority, error_quark) \<in> set calls.
            name = NM_SETTING_CONNECTION_SETTING_NAME \<or> type = NM_TYPE_SETTING_CONNECTION
            \<longrightarrow> name = NM_SETTING_CONNECTION_SETTING_NAME
                \<and> type = NM_TYPE_SETTING_CONNECTION \<and> priority = 0))"

section \<open>Settings\<close>

text \<open>
  A \<open>GValue\<close> with the type of what it holds, and the two nested hash tables of a
  serialized connection: property name to value, and setting name to properties.
\<close>

datatype gvalue =
    GValue_String string
  | GValue_UInt "32 word"
  | GValue_Boolean bool
  | GValue_Strv "string list"
  | GValue_List_Of_String "string list"

definition G_VALUE_HOLDS_G_TYPE_STRV :: "gvalue \<Rightarrow> bool" where
  "G_VALUE_HOLDS_G_TYPE_STRV v = (case v of GValue_Strv l \<Rightarrow> True | _ \<Rightarrow> False)"

definition G_VALUE_HOLDS_DBUS_TYPE_G_LIST_OF_STRING :: "gvalue \<Rightarrow> bool" where
  "G_VALUE_HOLDS_DBUS_TYPE_G_LIST_OF_STRING v =
     (case v of GValue_List_Of_String l \<Rightarrow> True | _ \<Rightarrow> False)"

type_synonym setting_hash = "(string \<times> gvalue) list"

type_synonym connection_hash = "(string \<times> setting_hash) list"

text \<open>
  The \<open>secrets\<close> table of \<open>nm_connection_update_secrets\<close> holds untyped pointers:
  a pointer to a \<open>GValue\<close> (the secrets of one setting) or to a nested table (a
  serialized connection).
\<close>

datatype gpointer =
    GValue_ptr gvalue
  | GHashTable_ptr "(string \<times> gpointer) list"

text \<open>
  A \<open>GError\<close>: the codes nm-connection.c sets, each with its message, and the errors
  of the setting kinds (error domain, code, message).
\<close>

datatype gerror =
    NM_CONNECTION_ERROR_CONNECTION_SETTING_NOT_FOUND string
  | NM_CONNECTION_ERROR_CONNECTION_TYPE_INVALID string
  | NM_CONNECTION_ERROR_SETTING_NOT_FOUND string
  | NM_SETTING_ERROR_PROPERTY_TYPE_MISMATCH string
  | NM_SETTING_CONNECTION_ERROR_UNKNOWN string
  | Setting_Error "32 word" nat string

text \<open>Per setting, the property names that differ, each with its result bits.\<close>

type_synonym diff_results = "(string \<times> 32 word) list"

text \<open>
  The functions of nm-setting.c and nm-setting-connection.c that nm-connection.c calls.
  They are parameters of the model. A function that changes the setting it is given
  returns the changed setting; \<open>nm_setting_diff\<close> is given the table its \<open>results\<close>
  argument points to and returns its result with the table it leaves there.
\<close>

record 's NMSettingClass =
  G_OBJECT_TYPE :: "'s \<Rightarrow> gtype"
  nm_setting_get_name :: "'s \<Rightarrow> string"
  nm_setting_verify :: "'s \<Rightarrow> 's list \<Rightarrow> gerror + unit"
  nm_setting_compare :: "'s \<Rightarrow> 's \<Rightarrow> 32 word \<Rightarrow> bool"
  nm_setting_diff ::
    "'s \<Rightarrow> 's option \<Rightarrow> 32 word \<Rightarrow> bool \<Rightarrow> diff_results option \<Rightarrow> bool \<times> diff_results option"
  nm_setting_need_secrets :: "'s \<Rightarrow> string list option"
  nm_setting_update_secrets :: "'s \<Rightarrow> gpointer \<Rightarrow> (gerror + unit) \<times> 's"
  nm_setting_to_hash :: "'s \<Rightarrow> 32 word \<Rightarrow> setting_hash option"
  nm_setting_new_from_hash :: "gtype \<Rightarrow> setting_hash \<Rightarrow> 's option"
  nm_setting_connection_get_connection_type :: "'s \<Rightarrow> string option"

definition NM_SETTING_CONNECTION_PERMISSIONS :: string where
  "NM_SETTING_CONNECTION_PERMISSIONS = ''permissions''"

text \<open>The flag values of nm-setting.h that ask for everything.\<close>

definition NM_SETTING_COMPARE_FLAG_EXACT :: "32 word" where
  "NM_SETTING_COMPARE_FLAG_EXACT = 0"

definition NM_SETTING_HASH_FLAG_ALL :: "32 word" where
  "NM_SETTING_HASH_FLAG_ALL = 0"

definition get_setting_priority :: "registry \<Rightarrow> 's NMSettingClass \<Rightarrow> 's \<Rightarrow> 32 word" where
  "get_setting_priority registered_settings cls setting =
     get_setting_priority_scan registered_settings (G_OBJECT_TYPE cls setting)"

definition NM_IS_SETTING_PPPOE :: "'s NMSettingClass \<Rightarrow> 's \<Rightarrow> bool" where
  "NM_IS_SETTING_PPPOE cls setting = (G_OBJECT_TYPE cls setting = NM_TYPE_SETTING_PPPOE)"

definition is_setting_base_type :: "registry \<Rightarrow> 's NMSettingClass \<Rightarrow> 's \<Rightarrow> bool" where
  "is_setting_base_type registered_settings cls setting =
     (get_setting_priority registered_settings cls setting = 1
      \<or> NM_IS_SETTING_PPPOE cls setting)"

definition setting_priority_compare :: "registry \<Rightarrow> 's NMSettingClass \<Rightarrow> 's \<Rightarrow> 's \<Rightarrow> int" where
  "setting_priority_compare registered_settings cls a b =
     (let prio_a = get_setting_priority registered_settings cls a;
          prio_b = get_setting_priority registered_settings cls b
      in if prio_a < prio_b then - 1 else if prio_a = prio_b then 0 else 1)"

section \<open>The connection\<close>

text \<open>
  \<open>NMConnectionPrivate\<close>. The \<open>settings\<close> table is keyed by the name of the
  setting's type, which GLib keeps unique per type: the model keys it by the type.
  A connection pointer that may be \<open>NULL\<close> is an \<open>option\<close>. Where a function only
  guards against an argument that is \<open>NULL\<close> or not a connection
  (\<open>g_return_val_if_fail\<close> on \<open>NM_IS_CONNECTION\<close>, on a name or on a table), the
  argument of the model is the connection, the string or the table itself.
\<close>

record 's NMConnectionPrivate =
  settings :: "(gtype \<times> 's) list"
  path :: "string option"

definition nm_connection_new :: "'s NMConnectionPrivate" where
  "nm_connection_new = \<lparr>settings = [], path = None\<rparr>"

definition nm_connection_add_setting ::
  "'s NMSettingClass \<Rightarrow> 's NMConnectionPrivate \<Rightarrow> 's \<Rightarrow> 's NMConnectionPrivate" where
  "nm_connection_add_setting cls connection setting =
     (if \<not> g_type_is_a_NM_TYPE_SETTING (G_OBJECT_TYPE cls setting) then connection
      else connection\<lparr>settings :=
             g_hash_table_insert (settings connection) (G_OBJECT_TYPE cls setting) setting\<rparr>)"

definition nm_connection_remove_setting ::
  "'s NMConnectionPrivate \<Rightarrow> gtype \<Rightarrow> 's NMConnectionPrivate" where
  "nm_connection_remove_setting connection setting_type =
     (if \<not> g_type_is_a_NM_TYPE_SETTING setting_type then connection
      else connection\<lparr>settings := g_hash_table_remove (settings connection) setting_type\<rparr>)"

definition nm_connection_get_setting :: "'s NMConnectionPrivate \<Rightarrow> gtype \<Rightarrow> 's option" where
  "nm_connection_get_setting connection setting_type =
     (if \<not> g_type_is_a_NM_TYPE_SETTING setting_type then None
      else g_hash_table_lookup (settings connection) setting_type)"

definition nm_connection_get_setting_by_name ::
  "registry \<Rightarrow> 's NMConnectionPrivate \<Rightarrow> string \<Rightarrow> 's option" where
  "nm_connection_get_setting_by_name registered_settings connection name =
     (let type = nm_connection_lookup_setting_type registered_settings name
      in if type \<noteq> G_TYPE_INVALID then nm_connection_get_setting connection type else None)"

definition nm_connection_get_setting_connection :: "'s NMConnectionPrivate \<Rightarrow> 's option" where
  "nm_connection_get_setting_connection connection =
     nm_connection_get_setting connection NM_TYPE_SETTING_CONNECTION"

subsection \<open>Verification\<close>

text \<open>The loop that runs the verify function of each setting, stopping at a failure.\<close>

fun verify_settings ::
  "'s NMSettingClass \<Rightarrow> 's list \<Rightarrow> (gtype \<times> 's) list \<Rightarrow> gerror + unit" where
  "verify_settings cls all_settings [] = Inr ()"
| "verify_settings cls all_settings ((key, v) # rest) =
     (case nm_setting_verify cls v all_settings of
        Inl e \<Rightarrow> Inl e
      | Inr u \<Rightarrow> verify_settings cls all_settings rest)"

definition nm_connection_verify ::
  "registry \<Rightarrow> 's NMSettingClass \<Rightarrow> 's NMConnectionPrivate option \<Rightarrow> gerror + unit" where
  "nm_connection_verify registered_settings cls connection =
     (case connection of
        None \<Rightarrow> Inl (NM_SETTING_CONNECTION_ERROR_UNKNOWN
                      ''invalid connection; failed verification'')
      | Some priv \<Rightarrow>
         (case nm_connection_get_setting_connection priv of
            None \<Rightarrow> Inl (NM_CONNECTION_ERROR_CONNECTION_SETTING_NOT_FOUND
                          ''connection setting not found'')
          | Some s_con \<Rightarrow>
             (case verify_settings cls (map snd (settings priv)) (settings priv) of
                Inl e \<Rightarrow> Inl e
              | Inr u \<Rightarrow>
                 (case nm_setting_connection_get_connection_type cls s_con of
                    None \<Rightarrow> Inl (NM_CONNECTION_ERROR_CONNECTION_TYPE_INVALID
                                  ''connection type missing'')
                  | Some ctype \<Rightarrow>
                     (case nm_connection_get_setting_by_name registered_settings priv ctype of
                        None \<Rightarrow> Inl (NM_CONNECTION_ERROR_CONNECTION_TYPE_INVALID
                                      ''base setting GType not found'')
                      | Some base \<Rightarrow>
                         if \<not> is_setting_base_type registered_settings cls base
                         then Inl (NM_CONNECTION_ERROR_CONNECTION_TYPE_INVALID
                                (''connection type '' @ [CHR 0x27] @ ctype @ [CHR 0x27]
                                 @ '' is not a base type''))
                         else Inr ())))))"

subsection \<open>Replacing the settings, and a connection from a hash\<close>

definition validate_permissions_type :: "connection_hash \<Rightarrow> gerror + unit" where
  "validate_permissions_type hash =
     (case g_hash_table_lookup hash NM_SETTING_CONNECTION_SETTING_NAME of
        None \<Rightarrow> Inr ()
      | Some s_con \<Rightarrow>
         (case g_hash_table_lookup s_con NM_SETTING_CONNECTION_PERMISSIONS of
            None \<Rightarrow> Inr ()
          | Some permissions \<Rightarrow>
             if \<not> G_VALUE_HOLDS_G_TYPE_STRV permissions
                \<and> \<not> G_VALUE_HOLDS_DBUS_TYPE_G_LIST_OF_STRING permissions
             then Inl (NM_SETTING_ERROR_PROPERTY_TYPE_MISMATCH
                    ''Wrong permissions property type; should be a list of strings.'')
             else Inr ()))"

text \<open>
  What a call comes to that may leave a freed object in use: \<open>Use_After_Free\<close> when
  the table of settings holds a setting that has been freed, so that what the program
  does with the table from there on is not defined; \<open>Defined\<close> with the result
  otherwise.
\<close>

datatype 'a execution = Use_After_Free | Defined 'a

text \<open>
  The loop of \<open>hash_to_connection\<close>. The local variable \<open>setting\<close> is declared
  outside the loop and assigned only when the name resolves; for an unknown name it
  still holds the setting of an entry before, and \<open>nm_connection_add_setting\<close> is
  called with it once more. The table owns that setting since it was added, with the
  only reference to it; \<open>g_hash_table_insert\<close> under its key replaces the value by
  the same pointer and calls the table's value destroy function, \<open>g_object_unref\<close>,
  on the value replaced: the setting is freed and the table keeps the pointer. (When
  the guard of \<open>nm_connection_add_setting\<close> refuses the setting, it was not added
  before and is not added now.)
\<close>

fun hash_to_connection_loop ::
  "registry \<Rightarrow> 's NMSettingClass \<Rightarrow> connection_hash \<Rightarrow> 's option \<Rightarrow> 's NMConnectionPrivate
   \<Rightarrow> 's NMConnectionPrivate execution" where
  "hash_to_connection_loop registered_settings cls [] setting connection = Defined connection"
| "hash_to_connection_loop registered_settings cls ((setting_name, setting_hash) # rest)
     setting connection =
     (let type = nm_connection_lookup_setting_type registered_settings setting_name;
          setting' = (if type \<noteq> G_TYPE_INVALID
                      then nm_setting_new_from_hash cls type setting_hash else setting)
      in case setting' of
           None \<Rightarrow> hash_to_connection_loop registered_settings cls rest setting' connection
         | Some s \<Rightarrow>
             if type = G_TYPE_INVALID \<and> g_type_is_a_NM_TYPE_SETTING (G_OBJECT_TYPE cls s)
             then Use_After_Free
             else hash_to_connection_loop registered_settings cls rest setting'
                    (nm_connection_add_setting cls connection s))"

text \<open>
  The result and the connection as the call leaves it. \<open>nm_connection_verify\<close> runs on
  the table the loop leaves.
\<close>

definition hash_to_connection ::
  "registry \<Rightarrow> 's NMSettingClass \<Rightarrow> 's NMConnectionPrivate \<Rightarrow> connection_hash
   \<Rightarrow> ((gerror + unit) \<times> 's NMConnectionPrivate) execution" where
  "hash_to_connection registered_settings cls connection new =
     (case hash_to_connection_loop registered_settings cls new None
             (connection\<lparr>settings := []\<rparr>) of
        Use_After_Free \<Rightarrow> Use_After_Free
      | Defined connection' \<Rightarrow>
          Defined (nm_connection_verify registered_settings cls (Some connection'),
                   connection'))"

definition nm_connection_replace_settings ::
  "registry \<Rightarrow> 's NMSettingClass \<Rightarrow> 's NMConnectionPrivate \<Rightarrow> connection_hash
   \<Rightarrow> ((gerror + unit) \<times> 's NMConnectionPrivate) execution" where
  "nm_connection_replace_settings registered_settings cls connection new_settings =
     (case validate_permissions_type new_settings of
        Inl e \<Rightarrow> Defined (Inl e, connection)
      | Inr u \<Rightarrow> hash_to_connection registered_settings cls connection new_settings)"

definition nm_connection_new_from_hash ::
  "registry \<Rightarrow> 's NMSettingClass \<Rightarrow> connection_hash
   \<Rightarrow> (gerror + 's NMConnectionPrivate) execution" where
  "nm_connection_new_from_hash registered_settings cls hash =
     (case validate_permissions_type hash of
        Inl e \<Rightarrow> Defined (Inl e)
      | Inr u \<Rightarrow>
         (case hash_to_connection registered_settings cls nm_connection_new hash of
            Use_After_Free \<Rightarrow> Use_After_Free
          | Defined (Inl e, connection) \<Rightarrow> Defined (Inl e)
          | Defined (Inr u', connection) \<Rightarrow> Defined (Inr connection)))"

subsection \<open>Serialization\<close>

fun to_hash_loop ::
  "'s NMSettingClass \<Rightarrow> 32 word \<Rightarrow> (gtype \<times> 's) list \<Rightarrow> connection_hash \<Rightarrow> connection_hash" where
  "to_hash_loop cls flags [] ret = ret"
| "to_hash_loop cls flags ((key, setting) # rest) ret =
     (case nm_setting_to_hash cls setting flags of
        Some setting_hash \<Rightarrow>
          to_hash_loop cls flags rest
            (g_hash_table_insert ret (nm_setting_get_name cls setting) setting_hash)
      | None \<Rightarrow> to_hash_loop cls flags rest ret)"

definition nm_connection_to_hash ::
  "'s NMSettingClass \<Rightarrow> 's NMConnectionPrivate \<Rightarrow> 32 word \<Rightarrow> connection_hash option" where
  "nm_connection_to_hash cls connection flags =
     (let ret = to_hash_loop cls flags (settings connection) []
      in if g_hash_table_size ret < 1 then None else Some ret)"

subsection \<open>Comparison\<close>

text \<open>The loop over the settings of \<open>a\<close>; \<open>False\<close> is the return from inside it.\<close>

fun compare_settings ::
  "'s NMSettingClass \<Rightarrow> (gtype \<times> 's) list \<Rightarrow> 's NMConnectionPrivate \<Rightarrow> 32 word \<Rightarrow> bool" where
  "compare_settings cls [] b flags = True"
| "compare_settings cls ((key, src) # rest) b flags =
     (case nm_connection_get_setting b (G_OBJECT_TYPE cls src) of
        None \<Rightarrow> False
      | Some cmp \<Rightarrow>
          if \<not> nm_setting_compare cls src cmp flags then False
          else compare_settings cls rest b flags)"

definition nm_connection_compare ::
  "'s NMSettingClass \<Rightarrow> 's NMConnectionPrivate option \<Rightarrow> 's NMConnectionPrivate option
   \<Rightarrow> 32 word \<Rightarrow> bool" where
  "nm_connection_compare cls a b flags =
     (case (a, b) of
        (None, None) \<Rightarrow> True
      | (None, Some pb) \<Rightarrow> False
      | (Some pa, None) \<Rightarrow> False
      | (Some pa, Some pb) \<Rightarrow>
          if \<not> compare_settings cls (settings pa) pb flags then False
          else if g_hash_table_size (settings pa) \<noteq> g_hash_table_size (settings pb) then False
          else True)"

subsection \<open>Differences\<close>






subsection \<open>Secrets\<close>

text \<open>The signals a call emits, in order.\<close>

datatype signal = SECRETS_UPDATED "string option" | SECRETS_CLEARED

text \<open>
  \<open>nm_setting_update_secrets\<close> changes the setting object the table holds; the table
  then holds the changed setting under the same key.
\<close>

definition update_setting_secrets ::
  "'s NMSettingClass \<Rightarrow> 's NMConnectionPrivate \<Rightarrow> gtype \<Rightarrow> 's \<Rightarrow> gpointer
   \<Rightarrow> (gerror + unit) \<times> 's NMConnectionPrivate" where
  "update_setting_secrets cls connection type setting secrets =
     (let (success, setting') = nm_setting_update_secrets cls setting secrets
      in (success,
          connection\<lparr>settings := g_hash_table_insert (settings connection) type setting'\<rparr>))"

text \<open>
  The loop of the branch without a setting name. \<open>Inl\<close>: the loop was left with
  \<open>success\<close> false, by the \<open>return\<close> or by the \<open>break\<close>.
\<close>

fun update_secrets_loop ::
  "registry \<Rightarrow> 's NMSettingClass \<Rightarrow> (string \<times> gpointer) list \<Rightarrow> 's NMConnectionPrivate
   \<Rightarrow> (gerror + unit) \<times> 's NMConnectionPrivate" where
  "update_secrets_loop registered_settings cls [] connection = (Inr (), connection)"
| "update_secrets_loop registered_settings cls ((name, tmp) # rest) connection =
     (case nm_connection_get_setting_by_name registered_settings connection name of
        None \<Rightarrow> (Inl (NM_CONNECTION_ERROR_SETTING_NOT_FOUND name), connection)
      | Some setting \<Rightarrow>
         (case update_setting_secrets cls connection
                 (nm_connection_lookup_setting_type registered_settings name) setting tmp of
            (Inl e, connection') \<Rightarrow> (Inl e, connection')
          | (Inr u, connection') \<Rightarrow>
              update_secrets_loop registered_settings cls rest connection'))"

text \<open>The result, the connection as the call leaves it, and the signals emitted.\<close>

definition nm_connection_update_secrets ::
  "registry \<Rightarrow> 's NMSettingClass \<Rightarrow> 's NMConnectionPrivate \<Rightarrow> string option
   \<Rightarrow> (string \<times> gpointer) list
   \<Rightarrow> (gerror + unit) \<times> 's NMConnectionPrivate \<times> signal list" where
  "nm_connection_update_secrets registered_settings cls connection setting_name secrets =
     (case setting_name of
        Some name \<Rightarrow>
         (case nm_connection_get_setting_by_name registered_settings connection name of
            None \<Rightarrow> (Inl (NM_CONNECTION_ERROR_SETTING_NOT_FOUND name), connection, [])
          | Some setting \<Rightarrow>
             (let tmp = g_hash_table_lookup secrets name;
                  (success, connection') =
                     update_setting_secrets cls connection
                       (nm_connection_lookup_setting_type registered_settings name) setting
                       (case tmp of Some t \<Rightarrow> t | None \<Rightarrow> GHashTable_ptr secrets)
              in (success, connection',
                  if success = Inr () then [SECRETS_UPDATED setting_name] else [])))
      | None \<Rightarrow>
         (let (success, connection') =
                 update_secrets_loop registered_settings cls secrets connection
          in (success, connection',
              if success = Inr () then [SECRETS_UPDATED setting_name] else [])))"

text \<open>
  GLib's \<open>g_slist_insert_sorted\<close>: it walks the list while the new element compares
  greater than the element it stands at, and puts the new element before the first
  element that it does not compare greater than, or at the end.
\<close>

fun g_slist_insert_sorted :: "'a list \<Rightarrow> 'a \<Rightarrow> ('a \<Rightarrow> 'a \<Rightarrow> int) \<Rightarrow> 'a list" where
  "g_slist_insert_sorted [] d func = [d]"
| "g_slist_insert_sorted (x # rest) d func =
     (if func d x > 0 then x # g_slist_insert_sorted rest d func else d # x # rest)"

text \<open>The first loop of \<open>nm_connection_need_secrets\<close>: the settings in priority order.\<close>

fun need_secrets_sorted ::
  "registry \<Rightarrow> 's NMSettingClass \<Rightarrow> (gtype \<times> 's) list \<Rightarrow> 's list \<Rightarrow> 's list" where
  "need_secrets_sorted registered_settings cls [] acc = acc"
| "need_secrets_sorted registered_settings cls ((key, setting) # rest) acc =
     need_secrets_sorted registered_settings cls rest
       (g_slist_insert_sorted acc setting (setting_priority_compare registered_settings cls))"

text \<open>The second loop: the first setting of the list that needs secrets.\<close>

fun need_secrets_first :: "'s NMSettingClass \<Rightarrow> 's list \<Rightarrow> (string \<times> string list) option" where
  "need_secrets_first cls [] = None"
| "need_secrets_first cls (setting # rest) =
     (case nm_setting_need_secrets cls setting of
        Some secrets \<Rightarrow> Some (nm_setting_get_name cls setting, secrets)
      | None \<Rightarrow> need_secrets_first cls rest)"

text \<open>The name returned and the hints, or \<open>None\<close> for the \<open>NULL\<close> name.\<close>

definition nm_connection_need_secrets ::
  "registry \<Rightarrow> 's NMSettingClass \<Rightarrow> 's NMConnectionPrivate \<Rightarrow> (string \<times> string list) option" where
  "nm_connection_need_secrets registered_settings cls connection =
     need_secrets_first cls
       (need_secrets_sorted registered_settings cls (settings connection) [])"

section \<open>Invariants and the statements they are compared with\<close>

text \<open>
  The \<open>settings\<close> table of a connection built by \<open>nm_connection_add_setting\<close>: each
  setting stands under the key of its own type, a subtype of \<open>NM_TYPE_SETTING\<close>, and
  no key stands twice.
\<close>

definition settings_keyed_by_type :: "'s NMSettingClass \<Rightarrow> 's NMConnectionPrivate \<Rightarrow> bool" where
  "settings_keyed_by_type cls connection =
     (distinct (map fst (settings connection))
      \<and> (\<forall>(key, setting) \<in> set (settings connection).
            key = G_OBJECT_TYPE cls setting \<and> g_type_is_a_NM_TYPE_SETTING key))"

text \<open>
  The settings \<open>hash_to_connection\<close> constructs: one for each entry of the hash whose
  name the registry resolves, in the order of the entries.
\<close>

definition resolved_settings :: "registry \<Rightarrow> 's NMSettingClass \<Rightarrow> connection_hash \<Rightarrow> 's list" where
  "resolved_settings registered_settings cls new =
     concat (map (\<lambda>(setting_name, setting_hash).
                    let type = nm_connection_lookup_setting_type registered_settings setting_name
                    in if type = G_TYPE_INVALID then []
                       else (case nm_setting_new_from_hash cls type setting_hash of
                               None \<Rightarrow> []
                             | Some s \<Rightarrow> [s]))
               new)"

text \<open>
  The spec's \<open>needSecrets\<close>: the settings in ascending order of priority, settings of
  equal priority in the order the connection holds them (\<open>sort_key\<close> is a stable
  sort), and the first of them that reports a need.
\<close>

definition spec_need_secrets ::
  "registry \<Rightarrow> 's NMSettingClass \<Rightarrow> 's NMConnectionPrivate \<Rightarrow> (string \<times> string list) option" where
  "spec_need_secrets registered_settings cls connection =
     need_secrets_first cls
       (sort_key (get_setting_priority registered_settings cls) (map snd (settings connection)))"


text \<open>
  What the round trip through \<open>nm_connection_to_hash\<close> and
  \<open>nm_connection_new_from_hash\<close> asks of the settings of a connection: each is
  registered under its own name, serializes to a table (and not to \<open>NULL\<close>, which
  stands for no property to send), is constructed again from that table, and compares
  equal to itself; the serialized permissions of the connection setting are a list of
  strings.
\<close>

definition settings_serialize_lossless ::
  "registry \<Rightarrow> 's NMSettingClass \<Rightarrow> 's NMConnectionPrivate \<Rightarrow> bool" where
  "settings_serialize_lossless registered_settings cls connection =
     (\<forall>(key, setting) \<in> set (settings connection).
        nm_connection_lookup_setting_type registered_settings (nm_setting_get_name cls setting)
          = G_OBJECT_TYPE cls setting
        \<and> nm_setting_compare cls setting setting NM_SETTING_COMPARE_FLAG_EXACT
        \<and> (case nm_setting_to_hash cls setting NM_SETTING_HASH_FLAG_ALL of
              None \<Rightarrow> False
            | Some setting_hash \<Rightarrow>
                nm_setting_new_from_hash cls (G_OBJECT_TYPE cls setting) setting_hash
                  = Some setting
                \<and> (nm_setting_get_name cls setting = NM_SETTING_CONNECTION_SETTING_NAME \<longrightarrow>
                     (case g_hash_table_lookup setting_hash NM_SETTING_CONNECTION_PERMISSIONS of
                        None \<Rightarrow> True
                      | Some permissions \<Rightarrow>
                          G_VALUE_HOLDS_G_TYPE_STRV permissions
                          \<or> G_VALUE_HOLDS_DBUS_TYPE_G_LIST_OF_STRING permissions))))"

section \<open>A sample setting class and registry\<close>

text \<open>
  A small implementation of the setting interface, to run the functions above on
  concrete connections: a setting has its type, its properties, whether its own
  verification passes and the secrets it reports as needed. Serialization gives the
  properties, and nothing for a setting without properties; the difference between two
  settings is the list of properties of the first that the second does not hold with
  the same value. The secrets of a sample setting are strings: it takes them from a
  table of strings and refuses any other table.
\<close>

record sample_setting =
  sample_type :: gtype
  sample_properties :: setting_hash
  sample_valid :: bool
  sample_secrets_needed :: "string list option"

definition sample_name :: "gtype \<Rightarrow> string" where
  "sample_name t =
     (if t = NM_TYPE_SETTING_CONNECTION then ''connection''
      else if t = NM_TYPE_SETTING_WIRED then ''802-3-ethernet''
      else if t = NM_TYPE_SETTING_WIRELESS then ''802-11-wireless''
      else if t = NM_TYPE_SETTING_WIRELESS_SECURITY then ''802-11-wireless-security''
      else if t = NM_TYPE_SETTING_PPP then ''ppp''
      else if t = NM_TYPE_SETTING_PPPOE then ''pppoe''
      else if t = NM_TYPE_SETTING_802_1X then ''802-1x''
      else ''setting'')"

definition sample_diff ::
  "sample_setting \<Rightarrow> sample_setting option \<Rightarrow> 32 word \<Rightarrow> bool \<Rightarrow> diff_results option
   \<Rightarrow> bool \<times> diff_results option" where
  "sample_diff a b flags invert_results results =
     (let changed = (case b of
                       None \<Rightarrow> (''name'', 1) # map (\<lambda>(k, v). (k, 1)) (sample_properties a)
                     | Some sb \<Rightarrow>
                         if sample_properties a = sample_properties sb then []
                         else map (\<lambda>(k, v). (k, 3))
                                (filter (\<lambda>(k, v). map_of (sample_properties sb) k \<noteq> Some v)
                                   (sample_properties a))
                              @ [(''name'', 0)]);
          results' = (case results of
                        None \<Rightarrow> if changed = [] then None else Some changed
                      | Some r \<Rightarrow> Some (r @ changed))
      in (results' = None, results'))"

definition sample_update_secrets ::
  "sample_setting \<Rightarrow> gpointer \<Rightarrow> (gerror + unit) \<times> sample_setting" where
  "sample_update_secrets s secrets =
     (case secrets of
        GValue_ptr v \<Rightarrow> (Inl (Setting_Error 1 0 ''not a table of secrets''), s)
      | GHashTable_ptr table \<Rightarrow>
          if list_all (\<lambda>(k, p). case p of GValue_ptr (GValue_String str) \<Rightarrow> True
                                   | _ \<Rightarrow> False) table
          then (Inr (),
                s\<lparr>sample_properties :=
                     sample_properties s
                     @ concat (map (\<lambda>(k, p). case p of GValue_ptr v \<Rightarrow> [(k, v)]
                                              | GHashTable_ptr t \<Rightarrow> []) table),
                  sample_secrets_needed := None\<rparr>)
          else (Inl (Setting_Error 1 1 ''secret of the wrong type''), s))"

definition sample_class :: "sample_setting NMSettingClass" where
  "sample_class =
     \<lparr>G_OBJECT_TYPE = sample_type,
      nm_setting_get_name = (\<lambda>s. sample_name (sample_type s)),
      nm_setting_verify =
        (\<lambda>s all_settings. if sample_valid s then Inr ()
                          else Inl (Setting_Error 1 1 (sample_name (sample_type s)))),
      nm_setting_compare = (\<lambda>a b flags. sample_properties a = sample_properties b),
      nm_setting_diff = sample_diff,
      nm_setting_need_secrets = sample_secrets_needed,
      nm_setting_update_secrets = sample_update_secrets,
      nm_setting_to_hash =
        (\<lambda>s flags. if sample_properties s = [] then None else Some (sample_properties s)),
      nm_setting_new_from_hash =
        (\<lambda>t hash. Some \<lparr>sample_type = t, sample_properties = hash, sample_valid = True,
                         sample_secrets_needed = None\<rparr>),
      nm_setting_connection_get_connection_type =
        (\<lambda>s. case map_of (sample_properties s) ''type'' of
                Some (GValue_String t) \<Rightarrow> Some t
              | _ \<Rightarrow> None)\<rparr>"

definition sample_setting :: "gtype \<Rightarrow> setting_hash \<Rightarrow> sample_setting" where
  "sample_setting t properties =
     \<lparr>sample_type = t, sample_properties = properties, sample_valid = True,
      sample_secrets_needed = None\<rparr>"

text \<open>
  The registrations of seven setting kinds, with the priorities of their classes, and the
  table they leave.
\<close>

definition sample_registrations :: "registration list" where
  "sample_registrations =
     [(''connection'', NM_TYPE_SETTING_CONNECTION, 0, 1),
      (''802-3-ethernet'', NM_TYPE_SETTING_WIRED, 1, 2),
      (''802-11-wireless'', NM_TYPE_SETTING_WIRELESS, 1, 3),
      (''802-11-wireless-security'', NM_TYPE_SETTING_WIRELESS_SECURITY, 2, 4),
      (''ppp'', NM_TYPE_SETTING_PPP, 3, 5),
      (''pppoe'', NM_TYPE_SETTING_PPPOE, 3, 6),
      (''802-1x'', NM_TYPE_SETTING_802_1X, 2, 7)]"

definition sample_registry :: registry where
  "sample_registry =
     [(''connection'',
       \<lparr>info_type = NM_TYPE_SETTING_CONNECTION, info_priority = 0, info_error_quark = 1\<rparr>),
      (''802-3-ethernet'',
       \<lparr>info_type = NM_TYPE_SETTING_WIRED, info_priority = 1, info_error_quark = 2\<rparr>),
      (''802-11-wireless'',
       \<lparr>info_type = NM_TYPE_SETTING_WIRELESS, info_priority = 1, info_error_quark = 3\<rparr>),
      (''802-11-wireless-security'',
       \<lparr>info_type = NM_TYPE_SETTING_WIRELESS_SECURITY, info_priority = 2,
        info_error_quark = 4\<rparr>),
      (''ppp'',
       \<lparr>info_type = NM_TYPE_SETTING_PPP, info_priority = 3, info_error_quark = 5\<rparr>),
      (''pppoe'',
       \<lparr>info_type = NM_TYPE_SETTING_PPPOE, info_priority = 3, info_error_quark = 6\<rparr>),
      (''802-1x'',
       \<lparr>info_type = NM_TYPE_SETTING_802_1X, info_priority = 2, info_error_quark = 7\<rparr>)]"

section \<open>Properties of the registry\<close>

lemma g_hash_table_insert_set:
  "set (g_hash_table_insert table key v) \<subseteq> insert (key, v) (set table)"
  by (induction table key v rule: g_hash_table_insert.induct) auto

lemma g_hash_table_insert_lookup:
  "map_of (g_hash_table_insert table key v) k = (if k = key then Some v else map_of table k)"
  by (induction table key v rule: g_hash_table_insert.induct) auto

lemma nm_register_setting_cases:
  "nm_register_setting (Some name) t priority error_quark reg = Aborted
   \<or> nm_register_setting (Some name) t priority error_quark reg = Returned_Critical reg
   \<or> nm_register_setting (Some name) t priority error_quark reg = Returned reg
   \<or> (nm_register_setting (Some name) t priority error_quark reg =
        Returned (g_hash_table_insert reg name
          \<lparr>info_type = t, info_priority = priority, info_error_quark = error_quark\<rparr>)
      \<and> map_of reg name = None \<and> priority \<le> 4 \<and> error_quark \<noteq> 0
      \<and> g_type_is_a_NM_TYPE_SETTING t)"
  by (simp add: nm_register_setting_def g_hash_table_lookup_def g_type_is_a_NM_TYPE_SETTING_def)

lemma register_all_entries:
  "register_all calls reg0 = Some reg \<Longrightarrow> (name, info) \<in> set reg \<Longrightarrow>
   (name, info) \<in> set reg0
   \<or> (name, info_type info, info_priority info, info_error_quark info) \<in> set calls"
proof (induction calls arbitrary: reg0)
  case Nil
  then show ?case by simp
next
  case (Cons call calls)
  obtain n t p q where call: "call = (n, t, p, q)" by (cases call) auto
  let ?new = "\<lparr>info_type = t, info_priority = p, info_error_quark = q\<rparr>"
  from nm_register_setting_cases [of n t p q reg0]
  consider (abort) "nm_register_setting (Some n) t p q reg0 = Aborted"
    | (same) "register_all calls reg0 = Some reg"
    | (added) "register_all calls (g_hash_table_insert reg0 n ?new) = Some reg"
    using Cons.prems(1) call by auto
  then show ?case
  proof cases
    case abort
    with Cons.prems(1) call show ?thesis by simp
  next
    case same
    from Cons.IH [OF same Cons.prems(2)] show ?thesis by auto
  next
    case added
    from Cons.IH [OF added Cons.prems(2)] g_hash_table_insert_set [of reg0 n ?new] call
    show ?thesis by auto
  qed
qed

lemma register_all_keeps_keys:
  "register_all calls reg0 = Some reg \<Longrightarrow> map_of reg0 name \<noteq> None \<Longrightarrow> map_of reg name \<noteq> None"
proof (induction calls arbitrary: reg0)
  case Nil
  then show ?case by simp
next
  case (Cons call calls)
  obtain n t p q where call: "call = (n, t, p, q)" by (cases call) auto
  let ?new = "\<lparr>info_type = t, info_priority = p, info_error_quark = q\<rparr>"
  from nm_register_setting_cases [of n t p q reg0]
  consider (abort) "nm_register_setting (Some n) t p q reg0 = Aborted"
    | (same) "register_all calls reg0 = Some reg"
    | (added) "register_all calls (g_hash_table_insert reg0 n ?new) = Some reg"
    using Cons.prems(1) call by auto
  then show ?case
  proof cases
    case abort
    with Cons.prems(1) call show ?thesis by simp
  next
    case same
    from Cons.IH [OF same Cons.prems(2)] show ?thesis .
  next
    case added
    have "map_of (g_hash_table_insert reg0 n ?new) name \<noteq> None"
      using Cons.prems(2) by (simp add: g_hash_table_insert_lookup)
    from Cons.IH [OF added this] show ?thesis .
  qed
qed

lemma register_all_registers:
  "register_all calls reg0 = Some reg \<Longrightarrow> (name, t, p, q) \<in> set calls \<Longrightarrow>
   g_type_is_a_NM_TYPE_SETTING t \<Longrightarrow> q \<noteq> 0 \<Longrightarrow> p \<le> 4 \<Longrightarrow> map_of reg name \<noteq> None"
proof (induction calls arbitrary: reg0)
  case Nil
  then show ?case by simp
next
  case (Cons call calls)
  obtain n' t' p' q' where call: "call = (n', t', p', q')" by (cases call) auto
  let ?new = "\<lparr>info_type = t', info_priority = p', info_error_quark = q'\<rparr>"
  from Cons.prems(1) call obtain reg1 where
    step: "nm_register_setting (Some n') t' p' q' reg0 = Returned_Critical reg1
           \<or> nm_register_setting (Some n') t' p' q' reg0 = Returned reg1"
    and rest: "register_all calls reg1 = Some reg"
    by (auto split: outcome.splits)
  show ?case
  proof (cases "(name, t, p, q) = call")
    case True
    then have "map_of reg1 name \<noteq> None"
      using step call Cons.prems(3,4,5)
      by (auto simp: nm_register_setting_def g_hash_table_lookup_def
            g_type_is_a_NM_TYPE_SETTING_def g_hash_table_insert_lookup split: if_splits)
    with rest show ?thesis by (rule register_all_keeps_keys)
  next
    case False
    with Cons.prems(2) have "(name, t, p, q) \<in> set calls" by auto
    from Cons.IH [OF rest this Cons.prems(3,4,5)] show ?thesis .
  qed
qed

lemma get_setting_priority_scan_find:
  "get_setting_priority_scan reg t =
     (case find (\<lambda>(name, info). info_type info = t) reg of
        None \<Rightarrow> G_MAXUINT32
      | Some (name, info) \<Rightarrow> info_priority info)"
  by (induction reg t rule: get_setting_priority_scan.induct) auto

lemma get_setting_priority_scan_all:
  "(name, info) \<in> set reg \<Longrightarrow> info_type info = t \<Longrightarrow>
   \<forall>(n, i) \<in> set reg. info_type i = t \<longrightarrow> info_priority i = p \<Longrightarrow>
   get_setting_priority_scan reg t = p"
  by (induction reg t rule: get_setting_priority_scan.induct) auto

lemma get_setting_priority_scan_unregistered:
  "t \<notin> (info_type \<circ> snd) ` set reg \<Longrightarrow> get_setting_priority_scan reg t = G_MAXUINT32"
  by (induction reg t rule: get_setting_priority_scan.induct) auto

lemma get_setting_priority_scan_registered:
  "t \<in> (info_type \<circ> snd) ` set reg \<Longrightarrow>
   \<exists>(name, info) \<in> set reg. info_type info = t \<and> get_setting_priority_scan reg t = info_priority info"
  by (induction reg t rule: get_setting_priority_scan.induct) auto


lemma register_all_priorities:
  "register_all calls reg0 = Some reg \<Longrightarrow> (name, info) \<in> set reg \<Longrightarrow>
   (name, info) \<in> set reg0 \<or> info_priority info \<le> 4"
proof (induction calls arbitrary: reg0)
  case Nil
  then show ?case by simp
next
  case (Cons call calls)
  obtain n t p q where call: "call = (n, t, p, q)" by (cases call) auto
  let ?new = "\<lparr>info_type = t, info_priority = p, info_error_quark = q\<rparr>"
  from nm_register_setting_cases [of n t p q reg0]
  consider (abort) "nm_register_setting (Some n) t p q reg0 = Aborted"
    | (same) "register_all calls reg0 = Some reg"
    | (added) "register_all calls (g_hash_table_insert reg0 n ?new) = Some reg" "p \<le> 4"
    using Cons.prems(1) call by auto
  then show ?case
  proof cases
    case abort
    with Cons.prems(1) call show ?thesis by simp
  next
    case same
    from Cons.IH [OF same Cons.prems(2)] show ?thesis .
  next
    case added
    from Cons.IH [OF added(1) Cons.prems(2)] g_hash_table_insert_set [of reg0 n ?new] added(2)
    show ?thesis by auto
  qed
qed

lemma le_G_MAXUINT32: "(x :: 32 word) \<le> G_MAXUINT32"
proof -
  have "(0xFFFFFFFF :: 32 word) = - 1" by simp
  then show ?thesis unfolding G_MAXUINT32_def by (simp only: word_n1_ge)
qed

lemma connection_kind_priority:
  assumes run: "register_all calls [] = Some reg"
    and conn: "connection_kind_registrations calls"
  shows "get_setting_priority_scan reg NM_TYPE_SETTING_CONNECTION = 0"
proof -
  from conn obtain q where q: "q \<noteq> 0"
    "(NM_SETTING_CONNECTION_SETTING_NAME, NM_TYPE_SETTING_CONNECTION, 0, q) \<in> set calls"
    unfolding connection_kind_registrations_def by auto
  have "map_of reg NM_SETTING_CONNECTION_SETTING_NAME \<noteq> None"
    using register_all_registers [OF run q(2)] q(1)
    by (simp add: g_type_is_a_NM_TYPE_SETTING_def)
  then obtain info where info: "(NM_SETTING_CONNECTION_SETTING_NAME, info) \<in> set reg"
    by (auto dest: map_of_SomeD)
  from register_all_entries [OF run info]
  have "(NM_SETTING_CONNECTION_SETTING_NAME, info_type info, info_priority info,
         info_error_quark info) \<in> set calls" by simp
  with conn have ty: "info_type info = NM_TYPE_SETTING_CONNECTION"
    unfolding connection_kind_registrations_def by auto
  have "\<forall>(n, i) \<in> set reg. info_type i = NM_TYPE_SETTING_CONNECTION \<longrightarrow> info_priority i = 0"
  proof (clarify)
    fix n i assume e: "(n, i) \<in> set reg" and t: "info_type i = NM_TYPE_SETTING_CONNECTION"
    from register_all_entries [OF run e]
    have "(n, info_type i, info_priority i, info_error_quark i) \<in> set calls" by simp
    with conn t show "info_priority i = 0"
      unfolding connection_kind_registrations_def by auto
  qed
  from get_setting_priority_scan_all [OF info ty this] show ?thesis .
qed

lemma registered_priority_below_sentinel:
  assumes run: "register_all calls [] = Some reg"
    and t: "t \<in> (info_type \<circ> snd) ` set reg"
  shows "get_setting_priority_scan reg t < G_MAXUINT32"
proof -
  from get_setting_priority_scan_registered [OF t] obtain name info where
    e: "(name, info) \<in> set reg" and p: "get_setting_priority_scan reg t = info_priority info"
    by auto
  from register_all_priorities [OF run e] have "info_priority info \<le> 4" by simp
  moreover have "(4 :: 32 word) < G_MAXUINT32" by (simp add: G_MAXUINT32_def)
  ultimately show ?thesis using p by simp
qed

text \<open>
  Claim C7. \<open>_get_setting_priority\<close> returns the priority of the entry registered for the
  type of the setting (the first such entry the scan meets), and \<open>G_MAXUINT32\<close> when
  no entry has that type; a setting of an unregistered type then never compares before
  another setting, and every setting of a registered type compares before it. After
  start-up registrations in which the connection kind registers as the spec describes,
  the priority of a connection setting is 0. \<open>_is_setting_base_type\<close> holds exactly
  for the settings of priority 1 and the PPPoE settings.
\<close>

theorem setting_priority_and_base_type:
  assumes run: "register_all calls [] = Some registered_settings"
    and conn: "connection_kind_registrations calls"
  shows
    "get_setting_priority registered_settings cls setting =
       (case find (\<lambda>(name, info). info_type info = G_OBJECT_TYPE cls setting)
               registered_settings of
          None \<Rightarrow> G_MAXUINT32
        | Some (name, info) \<Rightarrow> info_priority info)
     \<and> (G_OBJECT_TYPE cls setting \<notin> (info_type \<circ> snd) ` set registered_settings \<longrightarrow>
          get_setting_priority registered_settings cls setting = G_MAXUINT32
          \<and> (\<forall>other. 0 \<le> setting_priority_compare registered_settings cls setting other)
          \<and> (\<forall>other. G_OBJECT_TYPE cls other \<in> (info_type \<circ> snd) ` set registered_settings \<longrightarrow>
                 setting_priority_compare registered_settings cls other setting = - 1))
     \<and> (G_OBJECT_TYPE cls setting = NM_TYPE_SETTING_CONNECTION \<longrightarrow>
          get_setting_priority registered_settings cls setting = 0)
     \<and> (is_setting_base_type registered_settings cls setting \<longleftrightarrow>
          get_setting_priority registered_settings cls setting = 1
          \<or> G_OBJECT_TYPE cls setting = NM_TYPE_SETTING_PPPOE)"
proof (intro conjI impI allI)
  show "get_setting_priority registered_settings cls setting =
       (case find (\<lambda>(name, info). info_type info = G_OBJECT_TYPE cls setting)
               registered_settings of
          None \<Rightarrow> G_MAXUINT32
        | Some (name, info) \<Rightarrow> info_priority info)"
    by (simp add: get_setting_priority_def get_setting_priority_scan_find)
next
  assume "G_OBJECT_TYPE cls setting \<notin> (info_type \<circ> snd) ` set registered_settings"
  then show "get_setting_priority registered_settings cls setting = G_MAXUINT32"
    by (simp add: get_setting_priority_def get_setting_priority_scan_unregistered)
next
  fix other
  assume "G_OBJECT_TYPE cls setting \<notin> (info_type \<circ> snd) ` set registered_settings"
  then have "get_setting_priority registered_settings cls setting = G_MAXUINT32"
    by (simp add: get_setting_priority_def get_setting_priority_scan_unregistered)
  moreover have "get_setting_priority registered_settings cls other \<le> G_MAXUINT32"
    by (rule le_G_MAXUINT32)
  ultimately show "0 \<le> setting_priority_compare registered_settings cls setting other"
    by (auto simp: setting_priority_compare_def Let_def)
next
  fix other
  assume "G_OBJECT_TYPE cls setting \<notin> (info_type \<circ> snd) ` set registered_settings"
    and "G_OBJECT_TYPE cls other \<in> (info_type \<circ> snd) ` set registered_settings"
  then have "get_setting_priority registered_settings cls setting = G_MAXUINT32"
    and "get_setting_priority registered_settings cls other < G_MAXUINT32"
    using registered_priority_below_sentinel [OF run]
    by (simp_all add: get_setting_priority_def get_setting_priority_scan_unregistered)
  then show "setting_priority_compare registered_settings cls other setting = - 1"
    by (simp add: setting_priority_compare_def Let_def)
next
  assume "G_OBJECT_TYPE cls setting = NM_TYPE_SETTING_CONNECTION"
  then show "get_setting_priority registered_settings cls setting = 0"
    using connection_kind_priority [OF run conn] by (simp add: get_setting_priority_def)
next
  show "is_setting_base_type registered_settings cls setting \<longleftrightarrow>
          get_setting_priority registered_settings cls setting = 1
          \<or> G_OBJECT_TYPE cls setting = NM_TYPE_SETTING_PPPOE"
    by (simp add: is_setting_base_type_def NM_IS_SETTING_PPPOE_def)
qed

lemma sample_registry_registered:
  "register_all sample_registrations [] = Some sample_registry"
  by (simp add: sample_registrations_def sample_registry_def nm_register_setting_def
        g_hash_table_lookup_def NM_SETTING_CONNECTION_SETTING_NAME_def)

lemma sample_connection_kind_registrations:
  "connection_kind_registrations sample_registrations"
  by (simp add: connection_kind_registrations_def sample_registrations_def
        NM_SETTING_CONNECTION_SETTING_NAME_def)

theorem setting_priority_and_base_type_witness:
  "register_all sample_registrations [] = Some sample_registry
   \<and> connection_kind_registrations sample_registrations
   \<and> get_setting_priority sample_registry sample_class
       (sample_setting NM_TYPE_SETTING_CONNECTION []) = 0
   \<and> get_setting_priority sample_registry sample_class
       (sample_setting NM_TYPE_SETTING_PPP []) = 3
   \<and> get_setting_priority sample_registry sample_class
       (sample_setting NM_TYPE_SETTING_GSM []) = G_MAXUINT32
   \<and> setting_priority_compare sample_registry sample_class
       (sample_setting NM_TYPE_SETTING_PPP []) (sample_setting NM_TYPE_SETTING_GSM []) = - 1
   \<and> is_setting_base_type sample_registry sample_class (sample_setting NM_TYPE_SETTING_WIRED [])
   \<and> is_setting_base_type sample_registry sample_class (sample_setting NM_TYPE_SETTING_PPPOE [])
   \<and> \<not> is_setting_base_type sample_registry sample_class (sample_setting NM_TYPE_SETTING_PPP [])"
  using setting_priority_and_base_type
          [OF sample_registry_registered sample_connection_kind_registrations,
           of sample_class "sample_setting NM_TYPE_SETTING_CONNECTION []"]
        setting_priority_and_base_type
          [OF sample_registry_registered sample_connection_kind_registrations,
           of sample_class "sample_setting NM_TYPE_SETTING_PPP []"]
        setting_priority_and_base_type
          [OF sample_registry_registered sample_connection_kind_registrations,
           of sample_class "sample_setting NM_TYPE_SETTING_GSM []"]
        setting_priority_and_base_type
          [OF sample_registry_registered sample_connection_kind_registrations,
           of sample_class "sample_setting NM_TYPE_SETTING_WIRED []"]
        setting_priority_and_base_type
          [OF sample_registry_registered sample_connection_kind_registrations,
           of sample_class "sample_setting NM_TYPE_SETTING_PPPOE []"]
        sample_registry_registered sample_connection_kind_registrations
  by (simp add: sample_registry_def sample_class_def sample_setting_def G_MAXUINT32_def)

text \<open>
  Claim C6, as amended. A registration with a priority above 4 or with the error
  domain 0, and likewise one without a name or with the type \<open>G_TYPE_INVALID\<close> or
  \<open>G_TYPE_NONE\<close>, is refused by a \<open>g_return_if_fail\<close> guard: the call logs a critical
  warning and returns, and the table is as before. A registration under a name the
  table already holds returns with the table as before. The call aborts exactly when
  the name, the type and the error domain pass their guards, the priority is 0, the
  name is not yet registered and is not the reserved name "connection". When the
  guards pass, the name is new and the priority-0 check holds, the entry is recorded.
\<close>

theorem register_setting_outcomes:
  "(name = None \<or> type = G_TYPE_INVALID \<or> type = G_TYPE_NONE
      \<or> \<not> priority \<le> 4 \<or> error_quark = 0 \<longrightarrow>
      nm_register_setting name type priority error_quark registered_settings
        = Returned_Critical registered_settings)
   \<and> (\<forall>n. name = Some n \<and> g_hash_table_lookup registered_settings n \<noteq> None \<longrightarrow>
        nm_register_setting name type priority error_quark registered_settings
          = Returned registered_settings
        \<or> nm_register_setting name type priority error_quark registered_settings
          = Returned_Critical registered_settings)
   \<and> (nm_register_setting name type priority error_quark registered_settings = Aborted
        \<longleftrightarrow> (\<exists>n. name = Some n
              \<and> type \<noteq> G_TYPE_INVALID \<and> type \<noteq> G_TYPE_NONE \<and> error_quark \<noteq> 0
              \<and> priority = 0
              \<and> g_hash_table_lookup registered_settings n = None
              \<and> n \<noteq> NM_SETTING_CONNECTION_SETTING_NAME))
   \<and> (\<forall>n. name = Some n
        \<and> type \<noteq> G_TYPE_INVALID \<and> type \<noteq> G_TYPE_NONE \<and> error_quark \<noteq> 0 \<and> priority \<le> 4
        \<and> g_hash_table_lookup registered_settings n = None
        \<and> (priority = 0 \<longrightarrow> n = NM_SETTING_CONNECTION_SETTING_NAME) \<longrightarrow>
        nm_register_setting name type priority error_quark registered_settings
          = Returned (g_hash_table_insert registered_settings n
              \<lparr>info_type = type, info_priority = priority, info_error_quark = error_quark\<rparr>))"
  by (cases name) (auto simp: nm_register_setting_def)

theorem register_setting_outcomes_witness:
  "nm_register_setting (Some ''ppp'') NM_TYPE_SETTING_PPP 5 5 sample_registry
     = Returned_Critical sample_registry
   \<and> nm_register_setting (Some ''gsm'') NM_TYPE_SETTING_GSM 1 0 sample_registry
     = Returned_Critical sample_registry
   \<and> nm_register_setting None NM_TYPE_SETTING_GSM 1 7 sample_registry
     = Returned_Critical sample_registry
   \<and> nm_register_setting (Some ''gsm'') G_TYPE_INVALID 1 7 sample_registry
     = Returned_Critical sample_registry
   \<and> nm_register_setting (Some ''ppp'') NM_TYPE_SETTING_PPP 0 5 sample_registry
     = Returned sample_registry
   \<and> nm_register_setting (Some ''gsm'') NM_TYPE_SETTING_GSM 0 7 sample_registry = Aborted
   \<and> nm_register_setting (Some ''gsm'') NM_TYPE_SETTING_GSM 1 7 sample_registry
     = Returned (sample_registry @
         [(''gsm'', \<lparr>info_type = NM_TYPE_SETTING_GSM, info_priority = 1, info_error_quark = 7\<rparr>)])"
  using register_setting_outcomes
          [where name = "Some ''ppp''" and type = NM_TYPE_SETTING_PPP and priority = 5
             and error_quark = 5 and registered_settings = sample_registry]
        register_setting_outcomes
          [where name = "Some ''gsm''" and type = NM_TYPE_SETTING_GSM and priority = 1
             and error_quark = 0 and registered_settings = sample_registry]
        register_setting_outcomes
          [where name = None and type = NM_TYPE_SETTING_GSM and priority = 1
             and error_quark = 7 and registered_settings = sample_registry]
        register_setting_outcomes
          [where name = "Some ''gsm''" and type = G_TYPE_INVALID and priority = 1
             and error_quark = 7 and registered_settings = sample_registry]
        register_setting_outcomes
          [where name = "Some ''ppp''" and type = NM_TYPE_SETTING_PPP and priority = 0
             and error_quark = 5 and registered_settings = sample_registry]
        register_setting_outcomes
          [where name = "Some ''gsm''" and type = NM_TYPE_SETTING_GSM and priority = 0
             and error_quark = 7 and registered_settings = sample_registry]
        register_setting_outcomes
          [where name = "Some ''gsm''" and type = NM_TYPE_SETTING_GSM and priority = 1
             and error_quark = 7 and registered_settings = sample_registry]
  by (simp add: nm_register_setting_def sample_registry_def g_hash_table_lookup_def
        NM_SETTING_CONNECTION_SETTING_NAME_def)

text \<open>
  Claim C6 as stated fails: a registration with priority 5, or with the error domain 0,
  returns and does not abort; so does a registration with priority 0 under the name
  "ppp" once "ppp" is registered, and a registration with priority 0 under the new name
  "gsm" that a guard refuses, for its error domain 0 or its type \<open>G_TYPE_INVALID\<close>,
  and one with priority 0 and no name.
\<close>

theorem register_out_of_range_priority_returns:
  "nm_register_setting (Some ''ppp'') NM_TYPE_SETTING_PPP 5 5 [] = Returned_Critical []
   \<and> nm_register_setting (Some ''ppp'') NM_TYPE_SETTING_PPP 5 5 [] \<noteq> Aborted
   \<and> nm_register_setting (Some ''gsm'') NM_TYPE_SETTING_GSM 1 0 [] = Returned_Critical []
   \<and> nm_register_setting (Some ''gsm'') NM_TYPE_SETTING_GSM 1 0 [] \<noteq> Aborted
   \<and> nm_register_setting (Some ''ppp'') NM_TYPE_SETTING_PPP 0 5 sample_registry
       = Returned sample_registry
   \<and> nm_register_setting (Some ''ppp'') NM_TYPE_SETTING_PPP 0 5 sample_registry \<noteq> Aborted
   \<and> nm_register_setting (Some ''gsm'') NM_TYPE_SETTING_GSM 0 0 sample_registry
       = Returned_Critical sample_registry
   \<and> nm_register_setting (Some ''gsm'') G_TYPE_INVALID 0 7 sample_registry
       = Returned_Critical sample_registry
   \<and> nm_register_setting None NM_TYPE_SETTING_GSM 0 7 sample_registry
       = Returned_Critical sample_registry"
  by (simp add: nm_register_setting_def sample_registry_def g_hash_table_lookup_def)

section \<open>Properties of verification and comparison\<close>

lemma verify_settings_iff:
  "verify_settings cls all_settings table = Inr ()
   \<longleftrightarrow> (\<forall>s \<in> snd ` set table. nm_setting_verify cls s all_settings = Inr ())"
  by (induction cls all_settings table rule: verify_settings.induct)
     (auto split: sum.splits)

lemma verify_settings_Inl:
  "verify_settings cls all_settings table = Inl e \<Longrightarrow>
   \<exists>s \<in> snd ` set table. nm_setting_verify cls s all_settings \<noteq> Inr ()"
  using verify_settings_iff [of cls all_settings table] by auto

text \<open>
  Claim C1. \<open>nm_connection_verify\<close> succeeds on a connection exactly when the connection
  holds a connection setting, every setting passes its own verification against the list
  of all the settings, the type of the connection setting is set, the type name
  resolves through the registry to a setting the connection holds, and that setting is
  a base type. A connection without a connection setting fails with
  \<open>NM_CONNECTION_ERROR_CONNECTION_SETTING_NOT_FOUND\<close>, whatever else it holds. The code
  tests the type against \<open>NULL\<close>; as long as the registry holds no setting under
  the empty name, the type of a connection that passes is not the empty string either.
\<close>

theorem connection_verify_iff:
  "(nm_connection_verify registered_settings cls (Some connection) = Inr ()
    \<longleftrightarrow> (\<exists>s_con. nm_connection_get_setting connection NM_TYPE_SETTING_CONNECTION = Some s_con
          \<and> (\<forall>s \<in> snd ` set (settings connection).
                nm_setting_verify cls s (map snd (settings connection)) = Inr ())
          \<and> (\<exists>ctype. nm_setting_connection_get_connection_type cls s_con = Some ctype
                \<and> (\<exists>base.
                      nm_connection_get_setting_by_name registered_settings connection ctype
                        = Some base
                      \<and> is_setting_base_type registered_settings cls base))))
   \<and> (nm_connection_get_setting connection NM_TYPE_SETTING_CONNECTION = None \<longrightarrow>
        nm_connection_verify registered_settings cls (Some connection)
          = Inl (NM_CONNECTION_ERROR_CONNECTION_SETTING_NOT_FOUND
                   ''connection setting not found''))
   \<and> (nm_connection_verify registered_settings cls (Some connection) = Inr ()
        \<and> nm_connection_lookup_setting_type registered_settings [] = G_TYPE_INVALID \<longrightarrow>
        (\<exists>s_con ctype.
           nm_connection_get_setting connection NM_TYPE_SETTING_CONNECTION = Some s_con
           \<and> nm_setting_connection_get_connection_type cls s_con = Some ctype
           \<and> ctype \<noteq> []))"
  by (auto simp: nm_connection_verify_def nm_connection_get_setting_connection_def
        verify_settings_iff nm_connection_get_setting_by_name_def Let_def
      dest!: verify_settings_Inl
      split: option.splits sum.splits if_splits)

theorem connection_verify_iff_witness:
  "nm_connection_verify sample_registry sample_class
     (Some \<lparr>settings =
        [(NM_TYPE_SETTING_CONNECTION,
          sample_setting NM_TYPE_SETTING_CONNECTION
            [(''type'', GValue_String ''802-3-ethernet'')]),
         (NM_TYPE_SETTING_WIRED, sample_setting NM_TYPE_SETTING_WIRED [])],
        path = None\<rparr>) = Inr ()
   \<and> nm_connection_verify sample_registry sample_class
       (Some \<lparr>settings = [(NM_TYPE_SETTING_WIRED, sample_setting NM_TYPE_SETTING_WIRED [])],
          path = None\<rparr>)
     = Inl (NM_CONNECTION_ERROR_CONNECTION_SETTING_NOT_FOUND ''connection setting not found'')
   \<and> nm_connection_verify sample_registry sample_class
       (Some \<lparr>settings =
          [(NM_TYPE_SETTING_CONNECTION,
            sample_setting NM_TYPE_SETTING_CONNECTION [(''type'', GValue_String ''ppp'')]),
           (NM_TYPE_SETTING_PPP, sample_setting NM_TYPE_SETTING_PPP [])],
          path = None\<rparr>) \<noteq> Inr ()"
  using connection_verify_iff [of sample_registry sample_class
          "\<lparr>settings =
             [(NM_TYPE_SETTING_CONNECTION,
               sample_setting NM_TYPE_SETTING_CONNECTION
                 [(''type'', GValue_String ''802-3-ethernet'')]),
              (NM_TYPE_SETTING_WIRED, sample_setting NM_TYPE_SETTING_WIRED [])],
             path = None\<rparr>"]
        connection_verify_iff [of sample_registry sample_class
          "\<lparr>settings = [(NM_TYPE_SETTING_WIRED, sample_setting NM_TYPE_SETTING_WIRED [])],
             path = None\<rparr>"]
        connection_verify_iff [of sample_registry sample_class
          "\<lparr>settings =
             [(NM_TYPE_SETTING_CONNECTION,
               sample_setting NM_TYPE_SETTING_CONNECTION [(''type'', GValue_String ''ppp'')]),
              (NM_TYPE_SETTING_PPP, sample_setting NM_TYPE_SETTING_PPP [])],
             path = None\<rparr>"]
  by (simp add: nm_connection_get_setting_def nm_connection_get_setting_by_name_def
        nm_connection_lookup_setting_type_def g_hash_table_lookup_def
        g_type_is_a_NM_TYPE_SETTING_def is_setting_base_type_def get_setting_priority_def
        NM_IS_SETTING_PPPOE_def sample_registry_def sample_class_def sample_setting_def)

lemma compare_settings_iff:
  "compare_settings cls table b flags
   \<longleftrightarrow> (\<forall>src \<in> snd ` set table.
          \<exists>cmp. nm_connection_get_setting b (G_OBJECT_TYPE cls src) = Some cmp
                \<and> nm_setting_compare cls src cmp flags)"
  by (induction cls table b flags rule: compare_settings.induct)
     (auto split: option.splits)

text \<open>
  Claim C3. \<open>nm_connection_compare\<close> is true for two \<open>NULL\<close> connections and false
  when exactly one is \<open>NULL\<close>; for two connections it is true exactly when every
  setting of \<open>a\<close> has a setting under its type in \<open>b\<close> that compares equal to it
  under the flags, and both hold the same number of settings.
\<close>

theorem connection_compare_cases:
  "nm_connection_compare cls None None flags
   \<and> \<not> nm_connection_compare cls (Some a) None flags
   \<and> \<not> nm_connection_compare cls None (Some b) flags
   \<and> (nm_connection_compare cls (Some a) (Some b) flags
        \<longleftrightarrow> (\<forall>src \<in> snd ` set (settings a).
               \<exists>cmp. nm_connection_get_setting b (G_OBJECT_TYPE cls src) = Some cmp
                     \<and> nm_setting_compare cls src cmp flags)
            \<and> g_hash_table_size (settings a) = g_hash_table_size (settings b))"
  by (simp add: nm_connection_compare_def compare_settings_iff)

theorem connection_compare_cases_witness:
  "nm_connection_compare sample_class
     (Some \<lparr>settings =
        [(NM_TYPE_SETTING_CONNECTION,
          sample_setting NM_TYPE_SETTING_CONNECTION [(''id'', GValue_String ''eth0'')]),
         (NM_TYPE_SETTING_WIRED, sample_setting NM_TYPE_SETTING_WIRED [])],
        path = None\<rparr>)
     (Some \<lparr>settings =
        [(NM_TYPE_SETTING_WIRED, sample_setting NM_TYPE_SETTING_WIRED []),
         (NM_TYPE_SETTING_CONNECTION,
          sample_setting NM_TYPE_SETTING_CONNECTION [(''id'', GValue_String ''eth0'')])],
        path = Some ''/org/freedesktop/NetworkManager/Settings/1''\<rparr>)
     NM_SETTING_COMPARE_FLAG_EXACT
   \<and> \<not> nm_connection_compare sample_class
       (Some \<lparr>settings =
          [(NM_TYPE_SETTING_WIRED, sample_setting NM_TYPE_SETTING_WIRED [])],
          path = None\<rparr>)
       (Some \<lparr>settings =
          [(NM_TYPE_SETTING_WIRED, sample_setting NM_TYPE_SETTING_WIRED []),
           (NM_TYPE_SETTING_PPP, sample_setting NM_TYPE_SETTING_PPP [])],
          path = None\<rparr>)
       NM_SETTING_COMPARE_FLAG_EXACT"
  using connection_compare_cases
          [where cls = sample_class and flags = NM_SETTING_COMPARE_FLAG_EXACT
             and a = "\<lparr>settings =
               [(NM_TYPE_SETTING_CONNECTION,
                 sample_setting NM_TYPE_SETTING_CONNECTION [(''id'', GValue_String ''eth0'')]),
                (NM_TYPE_SETTING_WIRED, sample_setting NM_TYPE_SETTING_WIRED [])],
               path = None\<rparr>"
             and b = "\<lparr>settings =
               [(NM_TYPE_SETTING_WIRED, sample_setting NM_TYPE_SETTING_WIRED []),
                (NM_TYPE_SETTING_CONNECTION,
                 sample_setting NM_TYPE_SETTING_CONNECTION [(''id'', GValue_String ''eth0'')])],
               path = Some ''/org/freedesktop/NetworkManager/Settings/1''\<rparr>"]
        connection_compare_cases
          [where cls = sample_class and flags = NM_SETTING_COMPARE_FLAG_EXACT
             and a = "\<lparr>settings =
               [(NM_TYPE_SETTING_WIRED, sample_setting NM_TYPE_SETTING_WIRED [])],
               path = None\<rparr>"
             and b = "\<lparr>settings =
               [(NM_TYPE_SETTING_WIRED, sample_setting NM_TYPE_SETTING_WIRED []),
                (NM_TYPE_SETTING_PPP, sample_setting NM_TYPE_SETTING_PPP [])],
               path = None\<rparr>"]
  by (simp add: nm_connection_get_setting_def g_hash_table_lookup_def g_hash_table_size_def
        g_type_is_a_NM_TYPE_SETTING_def sample_class_def sample_setting_def)

section \<open>Properties of replacing the settings\<close>

lemma hash_to_connection_loop_adds:
  "\<forall>(setting_name, setting_hash) \<in> set new.
     nm_connection_lookup_setting_type registered_settings setting_name \<noteq> G_TYPE_INVALID \<Longrightarrow>
   hash_to_connection_loop registered_settings cls new setting connection
     = Defined (foldl (nm_connection_add_setting cls) connection
                  (resolved_settings registered_settings cls new))"
proof (induction new arbitrary: setting connection)
  case Nil
  then show ?case by (simp add: resolved_settings_def)
next
  case (Cons entry new)
  obtain setting_name setting_hash where entry: "entry = (setting_name, setting_hash)"
    by (cases entry) auto
  let ?type = "nm_connection_lookup_setting_type registered_settings setting_name"
  from Cons.prems entry have valid: "?type \<noteq> G_TYPE_INVALID" by simp
  from Cons.prems have rest:
    "\<forall>(setting_name, setting_hash) \<in> set new.
       nm_connection_lookup_setting_type registered_settings setting_name \<noteq> G_TYPE_INVALID"
    by simp
  show ?case
  proof (cases "nm_setting_new_from_hash cls ?type setting_hash")
    case None
    have "hash_to_connection_loop registered_settings cls (entry # new) setting connection
          = hash_to_connection_loop registered_settings cls new None connection"
      using valid None entry by (simp add: Let_def)
    also have "\<dots> = Defined (foldl (nm_connection_add_setting cls) connection
                         (resolved_settings registered_settings cls new))"
      using rest by (rule Cons.IH)
    finally show ?thesis using valid None entry by (simp add: resolved_settings_def)
  next
    case (Some s)
    have "hash_to_connection_loop registered_settings cls (entry # new) setting connection
          = hash_to_connection_loop registered_settings cls new (Some s)
              (nm_connection_add_setting cls connection s)"
      using valid Some entry by (simp add: Let_def)
    also have "\<dots> = Defined (foldl (nm_connection_add_setting cls)
                         (nm_connection_add_setting cls connection s)
                         (resolved_settings registered_settings cls new))"
      using rest by (rule Cons.IH)
    finally show ?thesis using valid Some entry by (simp add: resolved_settings_def)
  qed
qed

lemma hash_to_connection_loop_unknown_after_known:
  assumes known: "\<forall>(setting_name, setting_hash) \<in> set before.
       nm_connection_lookup_setting_type registered_settings setting_name \<noteq> G_TYPE_INVALID"
    and resolves: "nm_connection_lookup_setting_type registered_settings setting_name
                     \<noteq> G_TYPE_INVALID"
    and constructed: "nm_setting_new_from_hash cls
                        (nm_connection_lookup_setting_type registered_settings setting_name)
                        setting_hash = Some s"
    and is_setting: "g_type_is_a_NM_TYPE_SETTING (G_OBJECT_TYPE cls s)"
    and unknown: "nm_connection_lookup_setting_type registered_settings unknown_name
                    = G_TYPE_INVALID"
  shows "hash_to_connection_loop registered_settings cls
           (before @ (setting_name, setting_hash) # (unknown_name, unknown_hash) # rest)
           setting connection
         = Use_After_Free"
  using known
proof (induction before arbitrary: setting connection)
  case Nil
  from resolves constructed is_setting unknown show ?case by (simp add: Let_def)
next
  case (Cons entry before)
  obtain n h where entry: "entry = (n, h)" by (cases entry) auto
  from Cons.prems entry
  have valid: "nm_connection_lookup_setting_type registered_settings n \<noteq> G_TYPE_INVALID"
    by simp
  from Cons.prems have rest:
    "\<forall>(setting_name, setting_hash) \<in> set before.
       nm_connection_lookup_setting_type registered_settings setting_name \<noteq> G_TYPE_INVALID"
    by simp
  show ?case
    using valid entry Cons.IH [OF rest]
    by (simp add: Let_def split: option.splits)
qed

lemma replace_settings_permissions_mismatch:
  "validate_permissions_type new_settings = Inl e \<Longrightarrow>
   nm_connection_replace_settings registered_settings cls connection new_settings
     = Defined (Inl e, connection)"
  by (simp add: nm_connection_replace_settings_def)

lemma replace_settings_known_names:
  assumes "validate_permissions_type new_settings = Inr ()"
    and "\<forall>(setting_name, setting_hash) \<in> set new_settings.
       nm_connection_lookup_setting_type registered_settings setting_name \<noteq> G_TYPE_INVALID"
  shows "nm_connection_replace_settings registered_settings cls connection new_settings
     = Defined
         (nm_connection_verify registered_settings cls
            (Some (foldl (nm_connection_add_setting cls) (connection\<lparr>settings := []\<rparr>)
                     (resolved_settings registered_settings cls new_settings))),
          foldl (nm_connection_add_setting cls) (connection\<lparr>settings := []\<rparr>)
            (resolved_settings registered_settings cls new_settings))"
  using assms(1) hash_to_connection_loop_adds [OF assms(2), of cls None "connection\<lparr>settings := []\<rparr>"]
  by (simp add: nm_connection_replace_settings_def hash_to_connection_def)

text \<open>
  Claim C2. The code departs from the claim where the hash yields an entry with an
  unknown name after an entry whose setting was constructed. Replacing the settings by
  a "connection" entry of type 802-3-ethernet and an "802-3-ethernet" entry succeeds and
  leaves these two settings, as the claim says, also when an unknown entry "bogus"
  comes first. When "bogus" comes after them, the claim has it skipped and the same
  result; the code passes the wired setting to \<open>nm_connection_add_setting\<close> again,
  which frees it, and verification runs on a table that holds the freed setting.
\<close>

theorem replace_settings_unknown_name_frees_setting:
  "nm_connection_replace_settings sample_registry sample_class
     \<lparr>settings = [(NM_TYPE_SETTING_PPP, sample_setting NM_TYPE_SETTING_PPP [])], path = None\<rparr>
     [(''connection'', [(''type'', GValue_String ''802-3-ethernet'')]),
      (''802-3-ethernet'', [])]
   = Defined (Inr (),
        \<lparr>settings =
           [(NM_TYPE_SETTING_CONNECTION,
             sample_setting NM_TYPE_SETTING_CONNECTION
               [(''type'', GValue_String ''802-3-ethernet'')]),
            (NM_TYPE_SETTING_WIRED, sample_setting NM_TYPE_SETTING_WIRED [])],
           path = None\<rparr>)
   \<and> nm_connection_replace_settings sample_registry sample_class
       \<lparr>settings = [(NM_TYPE_SETTING_PPP, sample_setting NM_TYPE_SETTING_PPP [])], path = None\<rparr>
       [(''bogus'', [(''x'', GValue_Boolean True)]),
        (''connection'', [(''type'', GValue_String ''802-3-ethernet'')]),
        (''802-3-ethernet'', [])]
     = Defined (Inr (),
        \<lparr>settings =
           [(NM_TYPE_SETTING_CONNECTION,
             sample_setting NM_TYPE_SETTING_CONNECTION
               [(''type'', GValue_String ''802-3-ethernet'')]),
            (NM_TYPE_SETTING_WIRED, sample_setting NM_TYPE_SETTING_WIRED [])],
           path = None\<rparr>)
   \<and> nm_connection_replace_settings sample_registry sample_class
       \<lparr>settings = [(NM_TYPE_SETTING_PPP, sample_setting NM_TYPE_SETTING_PPP [])], path = None\<rparr>
       [(''connection'', [(''type'', GValue_String ''802-3-ethernet'')]),
        (''802-3-ethernet'', []),
        (''bogus'', [(''x'', GValue_Boolean True)])]
     = Use_After_Free"
  by (simp add: nm_connection_replace_settings_def hash_to_connection_def
        validate_permissions_type_def
        nm_connection_verify_def verify_settings_iff nm_connection_get_setting_connection_def
        nm_connection_add_setting_def nm_connection_get_setting_def
        nm_connection_get_setting_by_name_def nm_connection_lookup_setting_type_def
        g_hash_table_lookup_def g_type_is_a_NM_TYPE_SETTING_def is_setting_base_type_def
        get_setting_priority_def NM_IS_SETTING_PPPOE_def
        NM_SETTING_CONNECTION_SETTING_NAME_def NM_SETTING_CONNECTION_PERMISSIONS_def
        sample_registry_def sample_class_def sample_setting_def Let_def)

section \<open>Properties of the search for needed secrets\<close>

lemma g_slist_insert_sorted_insort:
  "g_slist_insert_sorted sorted_list setting (setting_priority_compare registered_settings cls)
     = insort_key (get_setting_priority registered_settings cls) setting sorted_list"
  by (induction sorted_list) (auto simp: setting_priority_compare_def Let_def)

lemma need_secrets_sorted_foldr:
  "need_secrets_sorted registered_settings cls table acc
     = foldr (insort_key (get_setting_priority registered_settings cls))
         (rev (map snd table)) acc"
  by (induction registered_settings cls table acc rule: need_secrets_sorted.induct)
     (simp_all add: g_slist_insert_sorted_insort)

lemma need_secrets_sorted_sort_key:
  "need_secrets_sorted registered_settings cls table []
     = sort_key (get_setting_priority registered_settings cls) (rev (map snd table))"
  by (simp add: need_secrets_sorted_foldr sort_key_def)

lemma need_secrets_first_None:
  "need_secrets_first cls ss = None \<longleftrightarrow> (\<forall>s \<in> set ss. nm_setting_need_secrets cls s = None)"
  by (induction ss) (auto split: option.splits)

lemma need_secrets_first_lowest:
  "sorted (map prio ss) \<Longrightarrow> s \<in> set ss \<Longrightarrow> nm_setting_need_secrets cls s = Some hints \<Longrightarrow>
   \<forall>s' \<in> set ss. nm_setting_need_secrets cls s' \<noteq> None \<and> s' \<noteq> s \<longrightarrow> prio s < prio s' \<Longrightarrow>
   need_secrets_first cls ss = Some (nm_setting_get_name cls s, hints)"
proof (induction ss)
  case Nil
  then show ?case by simp
next
  case (Cons x ss)
  show ?case
  proof (cases "x = s")
    case True
    with Cons.prems(3) show ?thesis by simp
  next
    case False
    with Cons.prems(2) have s: "s \<in> set ss" by simp
    with Cons.prems(1) have "prio x \<le> prio s" by auto
    with Cons.prems(4) False have x: "nm_setting_need_secrets cls x = None"
      by (cases "nm_setting_need_secrets cls x") (auto simp: not_less [symmetric])
    from Cons.prems(1) have "sorted (map prio ss)" by simp
    from Cons.IH [OF this s Cons.prems(3)] Cons.prems(4) x show ?thesis by simp
  qed
qed

text \<open>
  Claim C4, as amended. \<open>nm_connection_need_secrets\<close> asks the settings in ascending
  order of priority; among settings of equal priority it asks first the one the table
  yields last (each setting is inserted before the settings of equal priority collected
  so far). It returns the name and the hints of the first setting in that order that
  reports a need, and no name exactly when no setting reports a need. A setting that
  reports a need and whose priority is below that of every other setting reporting a
  need is the one returned: of a priority-1 and a priority-3 setting that both report
  a need, the priority-1 setting.
\<close>

theorem need_secrets_order:
  "nm_connection_need_secrets registered_settings cls connection
     = need_secrets_first cls
         (sort_key (get_setting_priority registered_settings cls)
            (rev (map snd (settings connection))))
   \<and> (nm_connection_need_secrets registered_settings cls connection = None
        \<longleftrightarrow> (\<forall>s \<in> snd ` set (settings connection). nm_setting_need_secrets cls s = None))
   \<and> (\<forall>s hints.
         s \<in> snd ` set (settings connection)
         \<and> nm_setting_need_secrets cls s = Some hints
         \<and> (\<forall>s' \<in> snd ` set (settings connection).
               nm_setting_need_secrets cls s' \<noteq> None \<and> s' \<noteq> s \<longrightarrow>
               get_setting_priority registered_settings cls s
                 < get_setting_priority registered_settings cls s')
         \<longrightarrow> nm_connection_need_secrets registered_settings cls connection
               = Some (nm_setting_get_name cls s, hints))"
proof (intro conjI allI impI)
  show "nm_connection_need_secrets registered_settings cls connection
     = need_secrets_first cls
         (sort_key (get_setting_priority registered_settings cls)
            (rev (map snd (settings connection))))"
    by (simp add: nm_connection_need_secrets_def need_secrets_sorted_sort_key)
next
  show "nm_connection_need_secrets registered_settings cls connection = None
        \<longleftrightarrow> (\<forall>s \<in> snd ` set (settings connection). nm_setting_need_secrets cls s = None)"
    by (simp add: nm_connection_need_secrets_def need_secrets_sorted_sort_key
          need_secrets_first_None)
next
  fix s hints
  let ?prio = "get_setting_priority registered_settings cls"
  let ?ss = "sort_key ?prio (rev (map snd (settings connection)))"
  assume a: "s \<in> snd ` set (settings connection)
         \<and> nm_setting_need_secrets cls s = Some hints
         \<and> (\<forall>s' \<in> snd ` set (settings connection).
               nm_setting_need_secrets cls s' \<noteq> None \<and> s' \<noteq> s \<longrightarrow> ?prio s < ?prio s')"
  have set: "set ?ss = snd ` set (settings connection)" by simp
  have "need_secrets_first cls ?ss = Some (nm_setting_get_name cls s, hints)"
  proof (rule need_secrets_first_lowest [where prio = ?prio])
    show "sorted (map ?prio ?ss)" by simp
    show "s \<in> set ?ss" using a set by simp
    show "nm_setting_need_secrets cls s = Some hints" using a by simp
    show "\<forall>s' \<in> set ?ss. nm_setting_need_secrets cls s' \<noteq> None \<and> s' \<noteq> s \<longrightarrow> ?prio s < ?prio s'"
      using a unfolding set by blast
  qed
  then show "nm_connection_need_secrets registered_settings cls connection
               = Some (nm_setting_get_name cls s, hints)"
    by (simp add: nm_connection_need_secrets_def need_secrets_sorted_sort_key)
qed

theorem need_secrets_order_witness:
  "nm_connection_need_secrets sample_registry sample_class
     \<lparr>settings =
        [(NM_TYPE_SETTING_CONNECTION, sample_setting NM_TYPE_SETTING_CONNECTION []),
         (NM_TYPE_SETTING_PPP,
          \<lparr>sample_type = NM_TYPE_SETTING_PPP, sample_properties = [], sample_valid = True,
           sample_secrets_needed = Some [''password'']\<rparr>),
         (NM_TYPE_SETTING_WIRELESS,
          \<lparr>sample_type = NM_TYPE_SETTING_WIRELESS, sample_properties = [],
           sample_valid = True, sample_secrets_needed = Some [''wep-key0'']\<rparr>)],
        path = None\<rparr>
   = Some (''802-11-wireless'', [''wep-key0''])
   \<and> nm_connection_need_secrets sample_registry sample_class
       \<lparr>settings =
          [(NM_TYPE_SETTING_CONNECTION, sample_setting NM_TYPE_SETTING_CONNECTION []),
           (NM_TYPE_SETTING_WIRED, sample_setting NM_TYPE_SETTING_WIRED [])],
          path = None\<rparr>
     = None"
  using need_secrets_order
          [where registered_settings = sample_registry and cls = sample_class
             and connection = "\<lparr>settings =
                [(NM_TYPE_SETTING_CONNECTION, sample_setting NM_TYPE_SETTING_CONNECTION []),
                 (NM_TYPE_SETTING_PPP,
                  \<lparr>sample_type = NM_TYPE_SETTING_PPP, sample_properties = [],
                   sample_valid = True, sample_secrets_needed = Some [''password'']\<rparr>),
                 (NM_TYPE_SETTING_WIRELESS,
                  \<lparr>sample_type = NM_TYPE_SETTING_WIRELESS, sample_properties = [],
                   sample_valid = True, sample_secrets_needed = Some [''wep-key0'']\<rparr>)],
                path = None\<rparr>"]
        need_secrets_order
          [where registered_settings = sample_registry and cls = sample_class
             and connection = "\<lparr>settings =
                [(NM_TYPE_SETTING_CONNECTION, sample_setting NM_TYPE_SETTING_CONNECTION []),
                 (NM_TYPE_SETTING_WIRED, sample_setting NM_TYPE_SETTING_WIRED [])],
                path = None\<rparr>"]
  by (simp add: get_setting_priority_def sample_registry_def sample_class_def
        sample_setting_def sample_name_def)

text \<open>
  Claim C4 as stated fails on ties: with a wireless-security setting and an 802.1x
  setting, both of priority 2 and both reporting a need, held in this order, the code
  returns the 802.1x setting, and a stable ascending order returns the
  wireless-security setting.
\<close>

theorem need_secrets_ties_not_stable:
  "nm_connection_need_secrets sample_registry sample_class
     \<lparr>settings =
        [(NM_TYPE_SETTING_WIRELESS_SECURITY,
          \<lparr>sample_type = NM_TYPE_SETTING_WIRELESS_SECURITY, sample_properties = [],
           sample_valid = True, sample_secrets_needed = Some [''psk'']\<rparr>),
         (NM_TYPE_SETTING_802_1X,
          \<lparr>sample_type = NM_TYPE_SETTING_802_1X, sample_properties = [],
           sample_valid = True, sample_secrets_needed = Some [''password'']\<rparr>)],
        path = None\<rparr>
   = Some (''802-1x'', [''password''])
   \<and> spec_need_secrets sample_registry sample_class
       \<lparr>settings =
          [(NM_TYPE_SETTING_WIRELESS_SECURITY,
            \<lparr>sample_type = NM_TYPE_SETTING_WIRELESS_SECURITY, sample_properties = [],
             sample_valid = True, sample_secrets_needed = Some [''psk'']\<rparr>),
           (NM_TYPE_SETTING_802_1X,
            \<lparr>sample_type = NM_TYPE_SETTING_802_1X, sample_properties = [],
             sample_valid = True, sample_secrets_needed = Some [''password'']\<rparr>)],
          path = None\<rparr>
     = Some (''802-11-wireless-security'', [''psk''])"
  by (simp add: nm_connection_need_secrets_def spec_need_secrets_def
        setting_priority_compare_def get_setting_priority_def
        sample_registry_def sample_class_def sample_name_def)

section \<open>Properties of the update of secrets\<close>






text \<open>
  Claim C10. \<open>nm_connection_update_secrets\<close> without a setting name and with an empty
  table of secrets succeeds, leaves the connection as it was and emits
  \<open>secrets-updated\<close> with no setting name.
\<close>

theorem update_secrets_of_empty_map:
  "nm_connection_update_secrets registered_settings cls connection None []
     = (Inr (), connection, [SECRETS_UPDATED None])"
  by (simp add: nm_connection_update_secrets_def)





section \<open>Properties of serialization\<close>

lemma g_hash_table_insert_new:
  "key \<notin> fst ` set table \<Longrightarrow> g_hash_table_insert table key v = table @ [(key, v)]"
  by (induction table key v rule: g_hash_table_insert.induct) auto

lemma to_hash_loop_appends:
  "distinct (map (\<lambda>(key, s). nm_setting_get_name cls s) table) \<Longrightarrow>
   \<forall>(key, s) \<in> set table. nm_setting_get_name cls s \<notin> fst ` set ret \<Longrightarrow>
   \<forall>(key, s) \<in> set table. nm_setting_to_hash cls s flags \<noteq> None \<Longrightarrow>
   to_hash_loop cls flags table ret
     = ret @ map (\<lambda>(key, s). (nm_setting_get_name cls s,
                               the (nm_setting_to_hash cls s flags))) table"
proof (induction table arbitrary: ret)
  case Nil
  then show ?case by simp
next
  case (Cons entry table)
  obtain key s where entry: "entry = (key, s)" by (cases entry) auto
  from Cons.prems(3) entry obtain h where h: "nm_setting_to_hash cls s flags = Some h"
    by auto
  let ?ret = "ret @ [(nm_setting_get_name cls s, h)]"
  have new: "nm_setting_get_name cls s \<notin> fst ` set ret"
    using Cons.prems(2) entry by auto
  have "to_hash_loop cls flags (entry # table) ret = to_hash_loop cls flags table ?ret"
    using entry h new by (simp add: g_hash_table_insert_new)
  also have "\<dots> = ?ret @ map (\<lambda>(key, s). (nm_setting_get_name cls s,
                               the (nm_setting_to_hash cls s flags))) table"
  proof (rule Cons.IH)
    show "distinct (map (\<lambda>(key, s). nm_setting_get_name cls s) table)"
      using Cons.prems(1) by simp
    show "\<forall>(key, s') \<in> set table. nm_setting_get_name cls s' \<notin> fst ` set ?ret"
      using Cons.prems(1,2) entry by (auto simp: image_iff)
    show "\<forall>(key, s) \<in> set table. nm_setting_to_hash cls s flags \<noteq> None"
      using Cons.prems(3) by simp
  qed
  finally show ?case using entry h by simp
qed

lemma foldl_add_setting_appends:
  "distinct (map fst table) \<Longrightarrow>
   \<forall>(key, s) \<in> set table. key = G_OBJECT_TYPE cls s \<and> g_type_is_a_NM_TYPE_SETTING key \<Longrightarrow>
   fst ` set table \<inter> fst ` set (settings connection) = {} \<Longrightarrow>
   foldl (nm_connection_add_setting cls) connection (map snd table)
     = connection\<lparr>settings := settings connection @ table\<rparr>"
proof (induction table arbitrary: connection)
  case Nil
  then show ?case by simp
next
  case (Cons entry table)
  obtain key s where entry: "entry = (key, s)" by (cases entry) auto
  let ?c = "connection\<lparr>settings := settings connection @ [(key, s)]\<rparr>"
  have add: "nm_connection_add_setting cls connection s = ?c"
    using Cons.prems(2,3) entry
    by (auto simp: nm_connection_add_setting_def g_hash_table_insert_new)
  have "foldl (nm_connection_add_setting cls) ?c (map snd table)
          = ?c\<lparr>settings := settings ?c @ table\<rparr>"
  proof (rule Cons.IH)
    show "distinct (map fst table)" using Cons.prems(1) by simp
    show "\<forall>(key, s) \<in> set table. key = G_OBJECT_TYPE cls s \<and> g_type_is_a_NM_TYPE_SETTING key"
      using Cons.prems(2) by simp
    show "fst ` set table \<inter> fst ` set (settings ?c) = {}"
      using Cons.prems(1,3) entry by (auto simp: image_iff)
  qed
  with add entry show ?case by simp
qed

lemma nm_connection_verify_settings_only:
  assumes "settings c' = settings c"
  shows "nm_connection_verify registered_settings cls (Some c')
           = nm_connection_verify registered_settings cls (Some c)"
proof -
  have get: "nm_connection_get_setting c' t = nm_connection_get_setting c t" for t
    using assms by (simp add: nm_connection_get_setting_def)
  have by_name: "nm_connection_get_setting_by_name registered_settings c' n
                   = nm_connection_get_setting_by_name registered_settings c n" for n
    by (simp add: nm_connection_get_setting_by_name_def Let_def get)
  show ?thesis
    unfolding nm_connection_verify_def nm_connection_get_setting_connection_def
      get by_name assms option.case ..
qed

lemma keyed_lookup:
  "settings_keyed_by_type cls connection \<Longrightarrow> (key, s) \<in> set (settings connection) \<Longrightarrow>
   nm_connection_get_setting connection (G_OBJECT_TYPE cls s) = Some s"
  by (auto simp: settings_keyed_by_type_def nm_connection_get_setting_def
        g_hash_table_lookup_def)


text \<open>
  Claim C5, as amended. For a connection that passes verification, whose table is keyed
  by the types of its settings, and whose settings are each registered under their own
  name, serialize under \<open>NM_SETTING_HASH_FLAG_ALL\<close> to a table (not to \<open>NULL\<close>), are
  constructed again from that table, and compare equal to themselves:
  \<open>nm_connection_to_hash\<close> gives a hash, \<open>nm_connection_new_from_hash\<close> of that hash
  succeeds, and the connection it gives holds the same settings and compares equal
  to the first under \<open>NM_SETTING_COMPARE_FLAG_EXACT\<close>.
\<close>

theorem to_hash_new_from_hash_round_trip:
  assumes verify: "nm_connection_verify registered_settings cls (Some connection) = Inr ()"
    and keyed: "settings_keyed_by_type cls connection"
    and lossless: "settings_serialize_lossless registered_settings cls connection"
  shows "\<exists>hash connection'.
           nm_connection_to_hash cls connection NM_SETTING_HASH_FLAG_ALL = Some hash
           \<and> nm_connection_new_from_hash registered_settings cls hash
                 = Defined (Inr connection')
           \<and> settings connection' = settings connection
           \<and> nm_connection_compare cls (Some connection') (Some connection)
                 NM_SETTING_COMPARE_FLAG_EXACT"
proof -
  let ?T = "settings connection"
  let ?name = "nm_setting_get_name cls"
  let ?to_hash = "\<lambda>s. nm_setting_to_hash cls s NM_SETTING_HASH_FLAG_ALL"
  let ?H = "map (\<lambda>(key, s). (?name s, the (?to_hash s))) ?T"
  let ?c' = "(nm_connection_new :: 'a NMConnectionPrivate)\<lparr>settings := ?T\<rparr>"
  have registered: "nm_connection_lookup_setting_type registered_settings (?name s)
                      = G_OBJECT_TYPE cls s"
    and reflexive: "nm_setting_compare cls s s NM_SETTING_COMPARE_FLAG_EXACT"
    and serialized: "\<exists>h. ?to_hash s = Some h
                       \<and> nm_setting_new_from_hash cls (G_OBJECT_TYPE cls s) h = Some s
                       \<and> (?name s = NM_SETTING_CONNECTION_SETTING_NAME \<longrightarrow>
                            (case g_hash_table_lookup h NM_SETTING_CONNECTION_PERMISSIONS of
                               None \<Rightarrow> True
                             | Some permissions \<Rightarrow>
                                 G_VALUE_HOLDS_G_TYPE_STRV permissions
                                 \<or> G_VALUE_HOLDS_DBUS_TYPE_G_LIST_OF_STRING permissions))"
    if "(key, s) \<in> set ?T" for key s
    using lossless that unfolding settings_serialize_lossless_def
    by (fastforce split: option.splits)+
  have key_type: "key = G_OBJECT_TYPE cls s" and key_setting: "g_type_is_a_NM_TYPE_SETTING key"
    if "(key, s) \<in> set ?T" for key s
    using keyed that unfolding settings_keyed_by_type_def by auto
  have keys: "distinct (map fst ?T)"
    using keyed unfolding settings_keyed_by_type_def by simp
  have one: "s = s'" if "(key, s) \<in> set ?T" "(key, s') \<in> set ?T" for key s s'
    using keys that by (metis map_of_is_SomeI option.inject)
  have names: "distinct (map (\<lambda>(key, s). ?name s) ?T)"
  proof -
    have "inj_on (\<lambda>(key, s). ?name s) (set ?T)"
    proof (rule inj_onI, clarify)
      fix k1 s1 k2 s2
      assume e1: "(k1, s1) \<in> set ?T" and e2: "(k2, s2) \<in> set ?T"
        and eq: "?name s1 = ?name s2"
      from registered [OF e1] registered [OF e2] eq key_type [OF e1] key_type [OF e2]
      have "k1 = k2" by simp
      with one [OF e1] e2 show "k1 = k2 \<and> s1 = s2" by simp
    qed
    moreover from keys have "distinct ?T" by (simp add: distinct_map)
    ultimately show ?thesis by (simp add: distinct_map)
  qed
  have nonempty: "?T \<noteq> []"
    using verify
    by (auto simp: nm_connection_verify_def nm_connection_get_setting_connection_def
          nm_connection_get_setting_def g_hash_table_lookup_def split: if_splits)
  have loop: "to_hash_loop cls NM_SETTING_HASH_FLAG_ALL ?T [] = ?H"
    using to_hash_loop_appends [OF names, of "[]" NM_SETTING_HASH_FLAG_ALL] serialized
    by fastforce
  have to_hash: "nm_connection_to_hash cls connection NM_SETTING_HASH_FLAG_ALL = Some ?H"
    using nonempty by (simp add: nm_connection_to_hash_def loop g_hash_table_size_def)
  have permissions: "validate_permissions_type ?H = Inr ()"
  proof (cases "g_hash_table_lookup ?H NM_SETTING_CONNECTION_SETTING_NAME")
    case None
    then show ?thesis by (simp add: validate_permissions_type_def)
  next
    case (Some s_con)
    then have "(NM_SETTING_CONNECTION_SETTING_NAME, s_con) \<in> set ?H"
      unfolding g_hash_table_lookup_def by (rule map_of_SomeD)
    then obtain key s where e: "(key, s) \<in> set ?T"
      and n: "?name s = NM_SETTING_CONNECTION_SETTING_NAME" and h: "s_con = the (?to_hash s)"
      by auto
    from serialized [OF e] n h
    have "case g_hash_table_lookup s_con NM_SETTING_CONNECTION_PERMISSIONS of
            None \<Rightarrow> True
          | Some permissions \<Rightarrow>
              G_VALUE_HOLDS_G_TYPE_STRV permissions
              \<or> G_VALUE_HOLDS_DBUS_TYPE_G_LIST_OF_STRING permissions"
      by auto
    with Some show ?thesis
      by (auto simp: validate_permissions_type_def split: option.splits)
  qed
  have resolved: "resolved_settings registered_settings cls ?H = map snd ?T"
  proof -
    have "resolved_settings registered_settings cls
            (map (\<lambda>(key, s). (?name s, the (?to_hash s))) table) = map snd table"
      if "set table \<subseteq> set ?T" for table
      using that
    proof (induction table)
      case Nil
      then show ?case by (simp add: resolved_settings_def)
    next
      case (Cons entry table)
      obtain key s where entry: "entry = (key, s)" by (cases entry) auto
      with Cons.prems have e: "(key, s) \<in> set ?T" by simp
      from key_setting [OF e] key_type [OF e]
      have valid: "G_OBJECT_TYPE cls s \<noteq> G_TYPE_INVALID"
        by (auto simp: g_type_is_a_NM_TYPE_SETTING_def)
      from Cons have "resolved_settings registered_settings cls
            (map (\<lambda>(key, s). (?name s, the (?to_hash s))) table) = map snd table"
        by simp
      with serialized [OF e] registered [OF e] valid entry show ?case
        by (auto simp: resolved_settings_def Let_def)
    qed
    then show ?thesis by simp
  qed
  have built: "hash_to_connection_loop registered_settings cls ?H None
                 ((nm_connection_new :: 'a NMConnectionPrivate)\<lparr>settings := []\<rparr>)
               = Defined ?c'"
  proof -
    have known: "\<forall>(setting_name, setting_hash) \<in> set ?H.
       nm_connection_lookup_setting_type registered_settings setting_name \<noteq> G_TYPE_INVALID"
    proof (clarify)
      fix setting_name setting_hash
      assume "(setting_name, setting_hash) \<in> set ?H"
        and invalid: "nm_connection_lookup_setting_type registered_settings setting_name
                        = G_TYPE_INVALID"
      then obtain key s where e: "(key, s) \<in> set ?T" and n: "setting_name = ?name s"
        by auto
      from key_setting [OF e] key_type [OF e] registered [OF e] n invalid
      show False by (simp add: g_type_is_a_NM_TYPE_SETTING_def)
    qed
    have fold: "foldl (nm_connection_add_setting cls)
            ((nm_connection_new :: 'a NMConnectionPrivate)\<lparr>settings := []\<rparr>) (map snd ?T)
          = ?c'"
      using foldl_add_setting_appends
              [OF keys, of cls "(nm_connection_new :: 'a NMConnectionPrivate)\<lparr>settings := []\<rparr>"]
            key_type key_setting
      by auto
    have "hash_to_connection_loop registered_settings cls ?H None
            ((nm_connection_new :: 'a NMConnectionPrivate)\<lparr>settings := []\<rparr>)
          = Defined (foldl (nm_connection_add_setting cls)
                       ((nm_connection_new :: 'a NMConnectionPrivate)\<lparr>settings := []\<rparr>)
                       (resolved_settings registered_settings cls ?H))"
      using known by (rule hash_to_connection_loop_adds)
    then show ?thesis unfolding resolved fold .
  qed
  have settings': "settings ?c' = ?T" by simp
  have "nm_connection_verify registered_settings cls (Some ?c') = Inr ()"
    using nm_connection_verify_settings_only [OF settings'] verify by simp
  then have from_hash: "nm_connection_new_from_hash registered_settings cls ?H
                          = Defined (Inr ?c')"
    by (simp add: nm_connection_new_from_hash_def permissions hash_to_connection_def built
          Let_def)
  have "nm_connection_compare cls (Some ?c') (Some connection) NM_SETTING_COMPARE_FLAG_EXACT"
  proof -
    have "\<exists>cmp. nm_connection_get_setting connection (G_OBJECT_TYPE cls src) = Some cmp
                \<and> nm_setting_compare cls src cmp NM_SETTING_COMPARE_FLAG_EXACT"
      if "src \<in> snd ` set ?T" for src
    proof -
      from that obtain key where e: "(key, src) \<in> set ?T" by auto
      from keyed_lookup [OF keyed e] reflexive [OF e] show ?thesis by simp
    qed
    then show ?thesis
      by (simp add: nm_connection_compare_def compare_settings_iff g_hash_table_size_def)
  qed
  with to_hash from_hash settings' show ?thesis by blast
qed


theorem to_hash_new_from_hash_round_trip_witness:
  "nm_connection_verify sample_registry sample_class
     (Some \<lparr>settings =
         [(NM_TYPE_SETTING_CONNECTION,
           sample_setting NM_TYPE_SETTING_CONNECTION
             [(''id'', GValue_String ''eth0''), (''type'', GValue_String ''802-3-ethernet''),
              (''permissions'', GValue_List_Of_String [''user:joe:''])]),
          (NM_TYPE_SETTING_WIRED,
           sample_setting NM_TYPE_SETTING_WIRED [(''mtu'', GValue_UInt 1500)])],
         path = Some ''/org/freedesktop/NetworkManager/Settings/7''\<rparr>) = Inr ()
   \<and> nm_connection_to_hash sample_class
       \<lparr>settings =
         [(NM_TYPE_SETTING_CONNECTION,
           sample_setting NM_TYPE_SETTING_CONNECTION
             [(''id'', GValue_String ''eth0''), (''type'', GValue_String ''802-3-ethernet''),
              (''permissions'', GValue_List_Of_String [''user:joe:''])]),
          (NM_TYPE_SETTING_WIRED,
           sample_setting NM_TYPE_SETTING_WIRED [(''mtu'', GValue_UInt 1500)])],
         path = Some ''/org/freedesktop/NetworkManager/Settings/7''\<rparr>
       NM_SETTING_HASH_FLAG_ALL
     = Some [(''connection'',
           [(''id'', GValue_String ''eth0''), (''type'', GValue_String ''802-3-ethernet''),
            (''permissions'', GValue_List_Of_String [''user:joe:''])]),
          (''802-3-ethernet'', [(''mtu'', GValue_UInt 1500)])]
   \<and> nm_connection_new_from_hash sample_registry sample_class
       [(''connection'',
           [(''id'', GValue_String ''eth0''), (''type'', GValue_String ''802-3-ethernet''),
            (''permissions'', GValue_List_Of_String [''user:joe:''])]),
          (''802-3-ethernet'', [(''mtu'', GValue_UInt 1500)])]
     = Defined (Inr \<lparr>settings =
         [(NM_TYPE_SETTING_CONNECTION,
           sample_setting NM_TYPE_SETTING_CONNECTION
             [(''id'', GValue_String ''eth0''), (''type'', GValue_String ''802-3-ethernet''),
              (''permissions'', GValue_List_Of_String [''user:joe:''])]),
          (NM_TYPE_SETTING_WIRED,
           sample_setting NM_TYPE_SETTING_WIRED [(''mtu'', GValue_UInt 1500)])],
         path = None\<rparr>)
   \<and> nm_connection_compare sample_class
       (Some \<lparr>settings =
         [(NM_TYPE_SETTING_CONNECTION,
           sample_setting NM_TYPE_SETTING_CONNECTION
             [(''id'', GValue_String ''eth0''), (''type'', GValue_String ''802-3-ethernet''),
              (''permissions'', GValue_List_Of_String [''user:joe:''])]),
          (NM_TYPE_SETTING_WIRED,
           sample_setting NM_TYPE_SETTING_WIRED [(''mtu'', GValue_UInt 1500)])],
         path = None\<rparr>)
       (Some \<lparr>settings =
         [(NM_TYPE_SETTING_CONNECTION,
           sample_setting NM_TYPE_SETTING_CONNECTION
             [(''id'', GValue_String ''eth0''), (''type'', GValue_String ''802-3-ethernet''),
              (''permissions'', GValue_List_Of_String [''user:joe:''])]),
          (NM_TYPE_SETTING_WIRED,
           sample_setting NM_TYPE_SETTING_WIRED [(''mtu'', GValue_UInt 1500)])],
         path = Some ''/org/freedesktop/NetworkManager/Settings/7''\<rparr>)
       NM_SETTING_COMPARE_FLAG_EXACT"
proof -
  let ?c = "\<lparr>settings =
         [(NM_TYPE_SETTING_CONNECTION,
           sample_setting NM_TYPE_SETTING_CONNECTION
             [(''id'', GValue_String ''eth0''), (''type'', GValue_String ''802-3-ethernet''),
              (''permissions'', GValue_List_Of_String [''user:joe:''])]),
          (NM_TYPE_SETTING_WIRED,
           sample_setting NM_TYPE_SETTING_WIRED [(''mtu'', GValue_UInt 1500)])],
         path = Some ''/org/freedesktop/NetworkManager/Settings/7''\<rparr>"
  have verify: "nm_connection_verify sample_registry sample_class (Some ?c) = Inr ()"
    by (simp add: nm_connection_verify_def nm_connection_get_setting_connection_def
        nm_connection_get_setting_def nm_connection_get_setting_by_name_def
        nm_connection_lookup_setting_type_def g_hash_table_lookup_def
        g_type_is_a_NM_TYPE_SETTING_def is_setting_base_type_def get_setting_priority_def
        NM_IS_SETTING_PPPOE_def sample_registry_def sample_class_def sample_setting_def
        sample_name_def)
  have keyed: "settings_keyed_by_type sample_class ?c"
    by (simp add: settings_keyed_by_type_def g_type_is_a_NM_TYPE_SETTING_def
          sample_class_def sample_setting_def)
  have lossless: "settings_serialize_lossless sample_registry sample_class ?c"
    by (simp add: settings_serialize_lossless_def nm_connection_lookup_setting_type_def
          g_hash_table_lookup_def G_VALUE_HOLDS_DBUS_TYPE_G_LIST_OF_STRING_def
          NM_SETTING_CONNECTION_SETTING_NAME_def NM_SETTING_CONNECTION_PERMISSIONS_def
          sample_registry_def sample_class_def sample_setting_def sample_name_def)
  have to_hash: "nm_connection_to_hash sample_class ?c NM_SETTING_HASH_FLAG_ALL
                   = Some [(''connection'',
           [(''id'', GValue_String ''eth0''), (''type'', GValue_String ''802-3-ethernet''),
            (''permissions'', GValue_List_Of_String [''user:joe:''])]),
          (''802-3-ethernet'', [(''mtu'', GValue_UInt 1500)])]"
    by (simp add: nm_connection_to_hash_def g_hash_table_size_def sample_class_def
          sample_setting_def sample_name_def)
  from to_hash_new_from_hash_round_trip [OF verify keyed lossless] to_hash
  obtain connection' where
    "nm_connection_new_from_hash sample_registry sample_class
       [(''connection'',
           [(''id'', GValue_String ''eth0''), (''type'', GValue_String ''802-3-ethernet''),
            (''permissions'', GValue_List_Of_String [''user:joe:''])]),
          (''802-3-ethernet'', [(''mtu'', GValue_UInt 1500)])] = Defined (Inr connection')"
    "settings connection' = settings ?c"
    "nm_connection_compare sample_class (Some connection') (Some ?c)
       NM_SETTING_COMPARE_FLAG_EXACT"
    by auto
  moreover have "nm_connection_new_from_hash sample_registry sample_class
       [(''connection'',
           [(''id'', GValue_String ''eth0''), (''type'', GValue_String ''802-3-ethernet''),
            (''permissions'', GValue_List_Of_String [''user:joe:''])]),
          (''802-3-ethernet'', [(''mtu'', GValue_UInt 1500)])]
     = Defined (Inr \<lparr>settings =
         [(NM_TYPE_SETTING_CONNECTION,
           sample_setting NM_TYPE_SETTING_CONNECTION
             [(''id'', GValue_String ''eth0''), (''type'', GValue_String ''802-3-ethernet''),
              (''permissions'', GValue_List_Of_String [''user:joe:''])]),
          (NM_TYPE_SETTING_WIRED,
           sample_setting NM_TYPE_SETTING_WIRED [(''mtu'', GValue_UInt 1500)])],
         path = None\<rparr>)"
    by (simp add: nm_connection_new_from_hash_def hash_to_connection_def
          validate_permissions_type_def nm_connection_new_def nm_connection_add_setting_def
          G_VALUE_HOLDS_G_TYPE_STRV_def G_VALUE_HOLDS_DBUS_TYPE_G_LIST_OF_STRING_def
          NM_SETTING_CONNECTION_SETTING_NAME_def NM_SETTING_CONNECTION_PERMISSIONS_def
          nm_connection_verify_def nm_connection_get_setting_connection_def
        nm_connection_get_setting_def nm_connection_get_setting_by_name_def
        nm_connection_lookup_setting_type_def g_hash_table_lookup_def
        g_type_is_a_NM_TYPE_SETTING_def is_setting_base_type_def get_setting_priority_def
        NM_IS_SETTING_PPPOE_def sample_registry_def sample_class_def sample_setting_def
        sample_name_def)
  ultimately show ?thesis using verify to_hash by simp
qed

text \<open>
  Claim C5 as stated fails for a setting that serializes to no table: the connection
  of type 802-3-ethernet whose wired setting has no property to send passes
  verification, its hash has the "connection" entry only, and the connection built
  from the hash has no wired setting and fails verification.
\<close>

theorem round_trip_loses_setting_without_properties:
  "nm_connection_verify sample_registry sample_class
     (Some \<lparr>settings =
         [(NM_TYPE_SETTING_CONNECTION,
           sample_setting NM_TYPE_SETTING_CONNECTION
             [(''id'', GValue_String ''eth0''), (''type'', GValue_String ''802-3-ethernet'')]),
          (NM_TYPE_SETTING_WIRED, sample_setting NM_TYPE_SETTING_WIRED [])],
         path = None\<rparr>) = Inr ()
   \<and> nm_connection_to_hash sample_class
       \<lparr>settings =
         [(NM_TYPE_SETTING_CONNECTION,
           sample_setting NM_TYPE_SETTING_CONNECTION
             [(''id'', GValue_String ''eth0''), (''type'', GValue_String ''802-3-ethernet'')]),
          (NM_TYPE_SETTING_WIRED, sample_setting NM_TYPE_SETTING_WIRED [])],
         path = None\<rparr>
       NM_SETTING_HASH_FLAG_ALL
     = Some [(''connection'',
           [(''id'', GValue_String ''eth0''), (''type'', GValue_String ''802-3-ethernet'')])]
   \<and> nm_connection_new_from_hash sample_registry sample_class
       [(''connection'',
           [(''id'', GValue_String ''eth0''), (''type'', GValue_String ''802-3-ethernet'')])]
     = Defined
         (Inl (NM_CONNECTION_ERROR_CONNECTION_TYPE_INVALID ''base setting GType not found''))"
  by (simp add: nm_connection_to_hash_def g_hash_table_size_def
        nm_connection_new_from_hash_def hash_to_connection_def
        validate_permissions_type_def nm_connection_new_def nm_connection_add_setting_def
        NM_SETTING_CONNECTION_SETTING_NAME_def NM_SETTING_CONNECTION_PERMISSIONS_def
        nm_connection_verify_def nm_connection_get_setting_connection_def
        nm_connection_get_setting_def nm_connection_get_setting_by_name_def
        nm_connection_lookup_setting_type_def g_hash_table_lookup_def
        g_type_is_a_NM_TYPE_SETTING_def is_setting_base_type_def get_setting_priority_def
        NM_IS_SETTING_PPPOE_def sample_registry_def sample_class_def sample_setting_def
        sample_name_def)

section \<open>Properties of the differences\<close>















end
